theory Spec2Isabelle
  imports Main
begin

section \<open>The Main contract (contract/src/main.nr)\<close>

text \<open>
  The contract's storage struct has two members: \<open>field_in_map\<close>, a \<open>Map\<close> from \<open>Field\<close>
  keys to \<open>PublicMutable<Field>\<close> state variables, and \<open>just_field\<close>, one
  \<open>PublicMutable<Field>\<close>. A \<open>Field\<close> is an element of the prime field of the proving
  system; it is represented by its canonical natural number below \<open>field_modulus\<close>.
  An integer literal in the source denotes its residue (\<open>to_field\<close>). A state variable
  that was never written reads as zero (\<open>empty_storage\<close>).

  The framework derives the storage slot of every state variable and of every map entry;
  the model works at the level of the source, where \<open>Map.at(key)\<close> selects the state
  variable of that key.
\<close>

type_synonym Field = nat

definition field_modulus :: nat where
  "field_modulus = 21888242871839275222246405745257275088548364400416034343698204186575808495617"

definition to_field :: "nat \<Rightarrow> Field" where
  "to_field n = n mod field_modulus"

record Storage =
  field_in_map :: "Field \<Rightarrow> Field"
  just_field :: Field

definition empty_storage :: Storage where
  "empty_storage = \<lparr>field_in_map = (\<lambda>_. 0), just_field = 0\<rparr>"

text \<open>
  Every public function is a transformer of the storage that also yields the function's
  return value.
  \<^verbatim>\<open>
  fn constructor() {
      storage.field_in_map.at(1).write(1);
      storage.just_field.write(700);
  }
  \<close>
\<close>

definition constructor :: "Storage \<Rightarrow> unit \<times> Storage" where
  "constructor s =
     (let s1 = s\<lparr>field_in_map := (field_in_map s)(to_field 1 := to_field 1)\<rparr>;
          s2 = s1\<lparr>just_field := to_field 700\<rparr>
      in ((), s2))"

text \<open>\<^verbatim>\<open>fn set_just_field(value: Field) { storage.just_field.write(value); }\<close>\<close>

definition set_just_field :: "Field \<Rightarrow> Storage \<Rightarrow> unit \<times> Storage" where
  "set_just_field v s = ((), s\<lparr>just_field := v\<rparr>)"

text \<open>\<^verbatim>\<open>fn get_just_field() -> Field { storage.just_field.read() }\<close>\<close>

definition get_just_field :: "Storage \<Rightarrow> Field \<times> Storage" where
  "get_just_field s = (just_field s, s)"

text \<open>
  \<^verbatim>\<open>fn set_field_in_map(key: Field, value: Field) { storage.field_in_map.at(key).write(value); }\<close>
\<close>

definition set_field_in_map :: "Field \<Rightarrow> Field \<Rightarrow> Storage \<Rightarrow> unit \<times> Storage" where
  "set_field_in_map k v s = ((), s\<lparr>field_in_map := (field_in_map s)(k := v)\<rparr>)"

text \<open>
  \<^verbatim>\<open>fn read_field_in_map(key: Field) -> Field { storage.field_in_map.at(key).read() }\<close>
\<close>

definition read_field_in_map :: "Field \<Rightarrow> Storage \<Rightarrow> Field \<times> Storage" where
  "read_field_in_map k s = (field_in_map s k, s)"


section \<open>The deployment server (src/server.ts)\<close>

subsection \<open>Values and the environment\<close>

text \<open>
  A thrown JavaScript error, with its optional \<open>code\<close> property (the property the
  server inspects) and its message.
\<close>

datatype js_error = JsError (error_code: "string option") (error_message: string)

text \<open>
  The result of running an \<open>async\<close> function (or a plain one) for a bounded number of
  loop iterations: it returned a value, it threw, or it is still \<open>Pending\<close>. The
  retries of the server have no bound, so every function with a loop takes a number of
  iterations it may run (\<open>fuel\<close>) and yields the state reached together with the outcome;
  a call never returns exactly when it is \<open>Pending\<close> for every amount of fuel.
\<close>

datatype 'a outcome = Returned 'a | Threw js_error | Pending

datatype MainContract = MainContract (address: string)

datatype AccountWallet = AccountWallet nat

text \<open>The object \<^verbatim>\<open>{ contract, wallet }\<close> that a deployment returns.\<close>

record DeploymentResult =
  contract :: MainContract
  wallet :: AccountWallet

datatype fetch_outcome = FetchThrew js_error | FetchResponse (statusText: string)

datatype deploy_outcome = DeployThrew js_error | Deployed MainContract AccountWallet

datatype bind_outcome = Bound | BindThrew js_error | BindErrorEvent js_error

type_synonym RawData = "char list"

text \<open>
  What the process sees of the outside world:
  \<^item> \<open>env\<close>: \<^verbatim>\<open>process.env\<close>;
  \<^item> \<open>fetch w url i\<close>: the outcome of the \<open>i\<close>-th call of \<^verbatim>\<open>fetch\<close> of the run (counted from
    0), when it is made to \<open>url\<close>;
  \<^item> \<open>deploy_steps w i\<close>: the joint outcome of the awaited library calls of the \<open>i\<close>-th run
    of \<^verbatim>\<open>deployContract\<close> (client creation, \<^verbatim>\<open>waitForPXE\<close>, account and contract
    deployment): the first error thrown, or the deployed contract and its wallet;
  \<^item> \<open>bind_port w p\<close>: what \<^verbatim>\<open>new WebSocketServer({ port: p })\<close> does. The constructor
    returns and the server listens (\<open>Bound\<close>); or the constructor itself throws
    (\<open>BindThrew\<close>, as for a port number out of range); or the constructor returns and the
    listen fails afterwards, so that the server emits an \<^verbatim>\<open>'error'\<close> event
    (\<open>BindErrorEvent\<close>). The library reports a port that is already in use, or one the
    process may not bind, in the last way;
  \<^item> \<open>toString\<close>: the text of a received message (\<^verbatim>\<open>message.toString()\<close>).
\<close>

record world =
  env :: "string \<rightharpoonup> string"
  fetch :: "string \<Rightarrow> nat \<Rightarrow> fetch_outcome"
  deploy_steps :: "nat \<Rightarrow> deploy_outcome"
  bind_port :: "nat \<Rightarrow> bind_outcome"
  toString :: "RawData \<Rightarrow> string"

subsection \<open>Observable effects\<close>

text \<open>
  One constructor for each message the server prints, in the order of the source lines
  that print them (18, 27, 39, 42, 47, 52, 55, 58, 67, 71, 73, 77, 86, 88, 91), with the
  values interpolated into the message.
\<close>

datatype log_msg =
    GoesIntoDeployContract
  | MainContractDeployedAt string
  | SequencerConnected nat
  | ReceivedMessage string
  | SequencerDisconnected nat
  | ServerRunning nat
  | PortInUse nat nat
  | UnexpectedServerError js_error
  | WaitingForPXE
  | ResponseStatusText string
  | PXEReady
  | PXENotReady
  | DeployingContract
  | ContractDeployedAt string
  | DeploymentFailed js_error

text \<open>
  The effects of the server, recorded in the order they happen. \<open>SetTimeout ms\<close> is the
  pause \<^verbatim>\<open>await new Promise(resolve => setTimeout(resolve, ms))\<close>; \<open>OnConnection p\<close> is the
  registration of the connection handler on the server of port \<open>p\<close>; \<open>WsSend c text\<close> is
  \<^verbatim>\<open>ws.send(text)\<close> on connection \<open>c\<close>. \<open>UncaughtException e\<close> is the end of the process:
  a server emitted \<^verbatim>\<open>'error'\<close> with \<open>e\<close>, and the source registers no listener for that
  event on any server.
\<close>

datatype event =
    ConsoleLog log_msg
  | ConsoleError log_msg
  | Fetch string
  | SetTimeout nat
  | CreatePXEClient string
  | NewWebSocketServer nat
  | OnConnection nat
  | WsSend nat string
  | AssignContractInstance MainContract
  | AssignWalletInstance AccountWallet
  | UncaughtException js_error

text \<open>
  The state of the process: the effects so far, how many times \<^verbatim>\<open>fetch\<close> and
  \<^verbatim>\<open>deployContract\<close> have been called, and the two module-level variables
  \<^verbatim>\<open>contractInstance\<close> and \<^verbatim>\<open>walletInstance\<close> (\<open>None\<close> is \<^verbatim>\<open>undefined\<close>).
\<close>

record state =
  trace :: "event list"
  fetches :: nat
  deploys :: nat
  contractInstance :: "MainContract option"
  walletInstance :: "AccountWallet option"

definition init_state :: state where
  "init_state = \<lparr>trace = [], fetches = 0, deploys = 0,
                  contractInstance = None, walletInstance = None\<rparr>"

definition emits :: "event list \<Rightarrow> state \<Rightarrow> state" where
  "emits es s = s\<lparr>trace := trace s @ es\<rparr>"

subsection \<open>setupSandbox and deployContract (lines 10-29)\<close>

text \<open>
  \<^verbatim>\<open>const { PXE_URL = 'http://localhost:8080' } = process.env;\<close>
  The default applies when the variable is not set.
\<close>

definition PXE_URL :: "world \<Rightarrow> string" where
  "PXE_URL w = (case env w ''PXE_URL'' of None \<Rightarrow> ''http://localhost:8080'' | Some u \<Rightarrow> u)"

definition setupSandbox :: "world \<Rightarrow> state \<Rightarrow> state" where
  "setupSandbox w s = emits [CreatePXEClient (PXE_URL w)] s"

definition deployContract :: "world \<Rightarrow> state \<Rightarrow> DeploymentResult outcome \<times> state" where
  "deployContract w s =
     (let s1 = emits [ConsoleLog GoesIntoDeployContract] s;
          s2 = setupSandbox w s1;
          s3 = s2\<lparr>deploys := Suc (deploys s2)\<rparr>
      in case deploy_steps w (deploys s) of
           DeployThrew e \<Rightarrow> (Threw e, s3)
         | Deployed mainContract accountWallet \<Rightarrow>
             (Returned \<lparr>contract = mainContract, wallet = accountWallet\<rparr>,
              emits [ConsoleLog (MainContractDeployedAt (address mainContract))] s3))"

subsection \<open>startWebSocketServer (lines 34-61)\<close>

text \<open>
  \<^verbatim>\<open>
  function startWebSocketServer(port = 3002) {
      try {
          const wss = new WebSocketServer({ port });
          wss.on('connection', (ws) => { ... });
          console.log(`... WebSocket server running on ws://localhost:${port}`);
      } catch (error: any) {
          if (error.code === 'EADDRINUSE') {
              console.error(`... Port ${port} already in use, retrying with port ${port + 1}...`);
              startWebSocketServer(port + 1);
          } else {
              console.error("... Unexpected error in WebSocket server:", error);
          }
      }
  }
  \<close>
  The recursion has no bound in the source, hence the fuel. The \<^verbatim>\<open>catch\<close> block sees
  only what the constructor throws. When the listen fails after the constructor has
  returned, the \<^verbatim>\<open>try\<close> block has already run to its end: the handler is registered, the
  message of line 52 is printed, the function returns, and then the \<^verbatim>\<open>'error'\<close> event
  ends the process.
\<close>

fun startWebSocketServer :: "nat \<Rightarrow> world \<Rightarrow> nat \<Rightarrow> state \<Rightarrow> unit outcome \<times> state" where
  "startWebSocketServer 0 w port s = (Pending, s)"
| "startWebSocketServer (Suc fuel) w port s =
     (let s1 = emits [NewWebSocketServer port] s
      in case bind_port w port of
           Bound \<Rightarrow>
             (Returned (), emits [OnConnection port, ConsoleLog (ServerRunning port)] s1)
         | BindThrew error \<Rightarrow>
             if error_code error = Some ''EADDRINUSE''
             then startWebSocketServer fuel w (port + 1)
                    (emits [ConsoleError (PortInUse port (port + 1))] s1)
             else (Returned (), emits [ConsoleError (UnexpectedServerError error)] s1)
         | BindErrorEvent error \<Rightarrow>
             (Returned (),
              emits [OnConnection port, ConsoleLog (ServerRunning port),
                     UncaughtException error] s1))"

subsection \<open>The handlers of one connection (lines 38-50)\<close>

text \<open>
  \<^verbatim>\<open>JSON.stringify\<close> on the values the server passes to it: booleans, strings and objects
  with string keys. A string is quoted; the quote, the backslash and the control
  characters are escaped.
\<close>

datatype json = JBool bool | JString string | JObject "(string \<times> json) list"

definition hex_digit :: "nat \<Rightarrow> char" where
  "hex_digit n = ''0123456789abcdef'' ! (n mod 16)"

definition escape_char :: "char \<Rightarrow> string" where
  "escape_char c =
     (if c = CHR 0x22 then [CHR 0x5C, CHR 0x22]
      else if c = CHR 0x5C then [CHR 0x5C, CHR 0x5C]
      else if c = CHR 0x08 then [CHR 0x5C, CHR ''b'']
      else if c = CHR 0x09 then [CHR 0x5C, CHR ''t'']
      else if c = CHR 0x0A then [CHR 0x5C, CHR ''n'']
      else if c = CHR 0x0C then [CHR 0x5C, CHR ''f'']
      else if c = CHR 0x0D then [CHR 0x5C, CHR ''r'']
      else if (of_char c :: nat) < 32
      then [CHR 0x5C, CHR ''u'', CHR ''0'', CHR ''0'',
            hex_digit (of_char c div 16), hex_digit (of_char c)]
      else [c])"

definition quote :: "string \<Rightarrow> string" where
  "quote s = [CHR 0x22] @ concat (map escape_char s) @ [CHR 0x22]"

fun intersperse :: "string \<Rightarrow> string list \<Rightarrow> string" where
  "intersperse sep [] = []"
| "intersperse sep [x] = x"
| "intersperse sep (x # y # ys) = x @ sep @ intersperse sep (y # ys)"

fun JSON_stringify :: "json \<Rightarrow> string" where
  "JSON_stringify (JBool b) = (if b then ''true'' else ''false'')"
| "JSON_stringify (JString s) = quote s"
| "JSON_stringify (JObject kvs) =
     ''{'' @ intersperse '','' (map (\<lambda>(k, v). quote k @ '':'' @ JSON_stringify v) kvs) @ ''}''"

text \<open>The object literal of line 43.\<close>

definition ACK :: json where
  "ACK = JObject [(''success'', JBool True),
                  (''message'', JString ''Test response from WebSocket server'')]"

text \<open>
  \<^verbatim>\<open>
  wss.on('connection', (ws) => {
      console.log(`... Rust sequencer connected to WebSocket on port ${port}`);
      ws.on('message', async (message) => {
          console.log("... Received WebSocket message:", message.toString());
          ws.send(JSON.stringify({ success: true, message: "Test response from WebSocket server" }));
      });
      ws.on('close', () => {
          console.log(`... Rust sequencer disconnected from port ${port}`);
      });
  });
  \<close>
  \<open>c\<close> names the connection \<^verbatim>\<open>ws\<close>.
\<close>

definition on_connection :: "nat \<Rightarrow> state \<Rightarrow> state" where
  "on_connection port s = emits [ConsoleLog (SequencerConnected port)] s"

definition on_message :: "world \<Rightarrow> nat \<Rightarrow> RawData \<Rightarrow> state \<Rightarrow> unit outcome \<times> state" where
  "on_message w c message s =
     (Returned (),
      emits [ConsoleLog (ReceivedMessage (toString w message)),
             WsSend c (JSON_stringify ACK)] s)"

definition on_close :: "nat \<Rightarrow> state \<Rightarrow> state" where
  "on_close port s = emits [ConsoleLog (SequencerDisconnected port)] s"

subsection \<open>ensurePXEReady (lines 66-81)\<close>

definition STATUS_URL :: string where
  "STATUS_URL = ''http://localhost:8080/status''"

text \<open>
  \<^verbatim>\<open>
  while (true) {
      try {
          const response = await fetch("http://localhost:8080/status");
          console.log('response.statusText', response.statusText);
          if (response.statusText === "OK") {
              console.log("... PXE is ready!");
              return;
          }
      } catch (error) {
          console.log("... PXE not ready yet, retrying...");
      }
      await new Promise(resolve => setTimeout(resolve, 5000));
  }
  \<close>
  One unit of fuel is one iteration of the loop.
\<close>

fun ensurePXEReady_loop :: "nat \<Rightarrow> world \<Rightarrow> state \<Rightarrow> unit outcome \<times> state" where
  "ensurePXEReady_loop 0 w s = (Pending, s)"
| "ensurePXEReady_loop (Suc fuel) w s =
     (let s1 = (emits [Fetch STATUS_URL] s)\<lparr>fetches := Suc (fetches s)\<rparr>
      in case fetch w STATUS_URL (fetches s) of
           FetchResponse st \<Rightarrow>
             (let s2 = emits [ConsoleLog (ResponseStatusText st)] s1
              in if st = ''OK''
                 then (Returned (), emits [ConsoleLog PXEReady] s2)
                 else ensurePXEReady_loop fuel w (emits [SetTimeout 5000] s2))
         | FetchThrew error \<Rightarrow>
             ensurePXEReady_loop fuel w (emits [ConsoleLog PXENotReady, SetTimeout 5000] s1))"

definition ensurePXEReady :: "nat \<Rightarrow> world \<Rightarrow> state \<Rightarrow> unit outcome \<times> state" where
  "ensurePXEReady fuel w s = ensurePXEReady_loop fuel w (emits [ConsoleLog WaitingForPXE] s)"

subsection \<open>deployContractWithRetry (lines 83-95)\<close>

text \<open>
  \<^verbatim>\<open>
  async function deployContractWithRetry() {
      await ensurePXEReady();
      try {
          console.log("... Deploying contract...");
          const { contract, wallet } = await deployContract();
          console.log("... Contract deployed at:", contract.address.toString());
          return { contract, wallet };
      } catch (error) {
          console.error("... Contract deployment failed, retrying in 10 seconds...", error);
          await new Promise(resolve => setTimeout(resolve, 10000));
          return deployContractWithRetry();
      }
  }
  \<close>
  The call of \<^verbatim>\<open>ensurePXEReady\<close> is outside the \<^verbatim>\<open>try\<close>: an error it threw would
  propagate. One unit of fuel is one call of the function; the Prober it calls may use
  what is left.
\<close>

fun deployContractWithRetry ::
  "nat \<Rightarrow> world \<Rightarrow> state \<Rightarrow> DeploymentResult outcome \<times> state" where
  "deployContractWithRetry 0 w s = (Pending, s)"
| "deployContractWithRetry (Suc fuel) w s =
     (case ensurePXEReady fuel w s of
        (Pending, s1) \<Rightarrow> (Pending, s1)
      | (Threw e, s1) \<Rightarrow> (Threw e, s1)
      | (Returned _, s1) \<Rightarrow>
          (case deployContract w (emits [ConsoleLog DeployingContract] s1) of
             (Returned r, s2) \<Rightarrow>
               (Returned r, emits [ConsoleLog (ContractDeployedAt (address (contract r)))] s2)
           | (Pending, s2) \<Rightarrow> (Pending, s2)
           | (Threw error, s2) \<Rightarrow>
               deployContractWithRetry fuel w
                 (emits [ConsoleError (DeploymentFailed error), SetTimeout 10000] s2)))"

subsection \<open>The module body (lines 8 and 97-101)\<close>

text \<open>
  \<^verbatim>\<open>
  const wss = new WebSocketServer({ port: 3001 });
  ...
  deployContractWithRetry().then(({ contract, wallet }) => {
      contractInstance = contract;
      walletInstance = wallet;
      startWebSocketServer();
  });
  \<close>
  The server of line 8 gets no handler. An error thrown while the module loads, or a
  rejection of the promise (it has no handler), ends the run as \<open>Threw\<close>. When the listen
  of the server of line 8 fails after its constructor has returned, the module body first
  runs to its end, that is up to the first \<^verbatim>\<open>await\<close> that suspends (the call of
  \<^verbatim>\<open>fetch\<close> in \<open>ensurePXEReady\<close>), and the \<^verbatim>\<open>'error'\<close> event then ends the process.
\<close>

definition server_module :: "nat \<Rightarrow> world \<Rightarrow> unit outcome \<times> state" where
  "server_module fuel w =
     (let s0 = emits [NewWebSocketServer 3001] init_state
      in case bind_port w 3001 of
           BindThrew e \<Rightarrow> (Threw e, s0)
         | BindErrorEvent e \<Rightarrow>
            (Threw e,
             (emits [ConsoleLog WaitingForPXE, Fetch STATUS_URL, UncaughtException e] s0)
               \<lparr>fetches := Suc (fetches s0)\<rparr>)
         | Bound \<Rightarrow>
            (case deployContractWithRetry fuel w s0 of
               (Pending, s1) \<Rightarrow> (Pending, s1)
             | (Threw e, s1) \<Rightarrow> (Threw e, s1)
             | (Returned r, s1) \<Rightarrow>
                 (let s2 = (emits [AssignContractInstance (contract r)] s1)
                             \<lparr>contractInstance := Some (contract r)\<rparr>;
                      s3 = (emits [AssignWalletInstance (wallet r)] s2)
                             \<lparr>walletInstance := Some (wallet r)\<rparr>
                  in startWebSocketServer fuel w 3002 s3)))"


section \<open>Reference behaviour\<close>

subsection \<open>The effects of the Readiness Prober\<close>

text \<open>
  The effects of one probe that did not find the service ready (the request threw, or the
  status text of the response is not \<open>OK\<close>), of \<open>n\<close> such probes in a row starting with
  the \<open>start\<close>-th call of \<^verbatim>\<open>fetch\<close>, and of the probe that finds it ready.
\<close>

fun failed_probe :: "fetch_outcome \<Rightarrow> event list" where
  "failed_probe (FetchThrew e) = [Fetch STATUS_URL, ConsoleLog PXENotReady, SetTimeout 5000]"
| "failed_probe (FetchResponse st) =
     [Fetch STATUS_URL, ConsoleLog (ResponseStatusText st), SetTimeout 5000]"

definition failed_probes :: "world \<Rightarrow> nat \<Rightarrow> nat \<Rightarrow> event list" where
  "failed_probes w start n =
     concat (map (\<lambda>i. failed_probe (fetch w STATUS_URL (start + i))) [0..<n])"

definition successful_probe :: "event list" where
  "successful_probe =
     [Fetch STATUS_URL, ConsoleLog (ResponseStatusText ''OK''), ConsoleLog PXEReady]"

subsection \<open>The replies sent on connections\<close>

fun sends :: "event list \<Rightarrow> (nat \<times> string) list" where
  "sends [] = []"
| "sends (WsSend c text # es) = (c, text) # sends es"
| "sends (e # es) = sends es"

subsection \<open>The effects of the Retry Wrapper\<close>

text \<open>
  The events of the Prober's loop body (the status request, what it prints about the
  answer, the pause of 5000 ms) are internal to the Prober; the \<open>milestones\<close> of a trace are
  the other events. Between them, one call of \<open>deployContractWithRetry\<close> that gets as far as
  the Deployer shows one \<open>deploy_round\<close>: the Prober starts and reports ready, the
  Deployer starts, and either fails (the error is logged, then a pause of 10000 ms) or
  returns the deployed contract. \<open>deploy_rounds w start n\<close> are the rounds of the \<open>n\<close> runs
  of the Deployer from the \<open>start\<close>-th on.
\<close>

fun prober_internal :: "event \<Rightarrow> bool" where
  "prober_internal (Fetch url) = True"
| "prober_internal (ConsoleLog PXENotReady) = True"
| "prober_internal (ConsoleLog (ResponseStatusText st)) = True"
| "prober_internal (SetTimeout ms) = (ms = 5000)"
| "prober_internal e = False"

definition milestones :: "event list \<Rightarrow> event list" where
  "milestones tr = filter (\<lambda>e. \<not> prober_internal e) tr"

fun deploy_failed :: "deploy_outcome \<Rightarrow> bool" where
  "deploy_failed (DeployThrew e) = True"
| "deploy_failed (Deployed c a) = False"

fun deploy_round :: "world \<Rightarrow> deploy_outcome \<Rightarrow> event list" where
  "deploy_round w (DeployThrew e) =
     [ConsoleLog WaitingForPXE, ConsoleLog PXEReady,
      ConsoleLog DeployingContract, ConsoleLog GoesIntoDeployContract,
      CreatePXEClient (PXE_URL w),
      ConsoleError (DeploymentFailed e), SetTimeout 10000]"
| "deploy_round w (Deployed c a) =
     [ConsoleLog WaitingForPXE, ConsoleLog PXEReady,
      ConsoleLog DeployingContract, ConsoleLog GoesIntoDeployContract,
      CreatePXEClient (PXE_URL w),
      ConsoleLog (MainContractDeployedAt (address c)),
      ConsoleLog (ContractDeployedAt (address c))]"

definition deploy_rounds :: "world \<Rightarrow> nat \<Rightarrow> nat \<Rightarrow> event list" where
  "deploy_rounds w start n =
     concat (map (\<lambda>i. deploy_round w (deploy_steps w (start + i))) [0..<n])"

text \<open>
  The state after the Deployer, started in the state \<open>s1\<close> in which the Prober returned,
  has failed with \<open>e\<close> and the pause is over; and after it has deployed contract \<open>c\<close>.
\<close>

definition after_failed_deploy :: "world \<Rightarrow> js_error \<Rightarrow> state \<Rightarrow> state" where
  "after_failed_deploy w e s1 =
     (emits [ConsoleLog DeployingContract, ConsoleLog GoesIntoDeployContract,
             CreatePXEClient (PXE_URL w),
             ConsoleError (DeploymentFailed e), SetTimeout 10000] s1)
       \<lparr>deploys := Suc (deploys s1)\<rparr>"

definition after_successful_deploy :: "world \<Rightarrow> MainContract \<Rightarrow> state \<Rightarrow> state" where
  "after_successful_deploy w c s1 =
     (emits [ConsoleLog DeployingContract, ConsoleLog GoesIntoDeployContract,
             CreatePXEClient (PXE_URL w),
             ConsoleLog (MainContractDeployedAt (address c)),
             ConsoleLog (ContractDeployedAt (address c))] s1)
       \<lparr>deploys := Suc (deploys s1)\<rparr>"

subsection \<open>The order of the orchestration\<close>

text \<open>
  A monitor for the order of events in a run of the module. It reads a trace from left to
  right and tracks the phase of the orchestration; an event that is out of order has no
  successor phase.
  \<^item> The server of line 8 (port 3001) is constructed first, while the module loads.
  \<^item> The Prober (\<open>WaitingForPXE\<close>) starts only when neither it nor the Deployer is running,
    and completes (\<open>PXEReady\<close>) only after it started.
  \<^item> The Deployer starts (\<open>GoesIntoDeployContract\<close>) only when the Prober has completed since
    the last run of the Deployer; it then fails (\<open>DeploymentFailed\<close>) or completes
    (\<open>MainContractDeployedAt\<close>).
  \<^item> \<^verbatim>\<open>contractInstance\<close> is assigned only after the Deployer completed, \<^verbatim>\<open>walletInstance\<close>
    only after that.
  \<^item> The Bridge Server constructs a server only after both assignments, first on port
    3002, then on any port while it is still binding; the connection handler is
    registered only while binding.
  \<^item> Every other event is allowed at any time.
\<close>

datatype phase =
    Loading | Idle | Probing | ProberDone | Deploying | DeployedOK
  | ContractStored | Stored | Binding | Listening

fun step :: "phase \<Rightarrow> event \<Rightarrow> phase option" where
  "step ph (NewWebSocketServer p) =
     (if ph = Loading \<and> p = 3001 then Some Idle
      else if ph = Stored \<and> p = 3002 then Some Binding
      else if ph = Binding then Some Binding
      else None)"
| "step ph (ConsoleLog WaitingForPXE) = (if ph = Idle then Some Probing else None)"
| "step ph (ConsoleLog PXEReady) = (if ph = Probing then Some ProberDone else None)"
| "step ph (ConsoleLog GoesIntoDeployContract) =
     (if ph = ProberDone then Some Deploying else None)"
| "step ph (ConsoleError (DeploymentFailed e)) = (if ph = Deploying then Some Idle else None)"
| "step ph (ConsoleLog (MainContractDeployedAt a)) =
     (if ph = Deploying then Some DeployedOK else None)"
| "step ph (AssignContractInstance c) = (if ph = DeployedOK then Some ContractStored else None)"
| "step ph (AssignWalletInstance a) = (if ph = ContractStored then Some Stored else None)"
| "step ph (OnConnection p) = (if ph = Binding then Some Listening else None)"
| "step ph e = Some ph"

fun run :: "phase \<Rightarrow> event list \<Rightarrow> phase option" where
  "run ph [] = Some ph"
| "run ph (e # es) = (case step ph e of None \<Rightarrow> None | Some ph' \<Rightarrow> run ph' es)"

definition ordered :: "event list \<Rightarrow> bool" where
  "ordered tr = (run Loading tr \<noteq> None)"

subsection \<open>Writes to the module-level variables\<close>

fun is_write :: "event \<Rightarrow> bool" where
  "is_write (AssignContractInstance c) = True"
| "is_write (AssignWalletInstance a) = True"
| "is_write e = False"

definition writes :: "event list \<Rightarrow> event list" where
  "writes tr = filter is_write tr"

text \<open>
  The state after the two assignments of the \<^verbatim>\<open>then\<close> callback, made in state \<open>s1\<close> with
  the deployment result \<open>r\<close>.
\<close>

definition after_store :: "DeploymentResult \<Rightarrow> state \<Rightarrow> state" where
  "after_store r s1 =
     (emits [AssignWalletInstance (wallet r)]
        ((emits [AssignContractInstance (contract r)] s1)
           \<lparr>contractInstance := Some (contract r)\<rparr>))
       \<lparr>walletInstance := Some (wallet r)\<rparr>"


subsection \<open>Scenarios\<close>

text \<open>Errors and worlds at which the properties below are evaluated.\<close>

definition network_error :: js_error where
  "network_error = JsError (Some ''ECONNREFUSED'') ''fetch failed''"

text \<open>The status request fails twice with a network error, then the answer is \<open>OK\<close>.\<close>

definition world_two_failed_probes :: world where
  "world_two_failed_probes =
     \<lparr>env = Map.empty,
      fetch = (\<lambda>url i. if i < 2 then FetchThrew network_error else FetchResponse ''OK''),
      deploy_steps = (\<lambda>i. Deployed (MainContract ''0x04bf'') (AccountWallet 0)),
      bind_port = (\<lambda>p. Bound),
      toString = (\<lambda>m. m)\<rparr>"

definition address_in_use_error :: js_error where
  "address_in_use_error = JsError (Some ''EADDRINUSE'') ''listen EADDRINUSE: address already in use''"

definition access_error :: js_error where
  "access_error = JsError (Some ''EACCES'') ''listen EACCES: permission denied''"

text \<open>
  Another process listens on port 3002, and the process may not bind port 80. The library
  reports both after the constructor has returned.
\<close>

definition world_port_3002_busy :: world where
  "world_port_3002_busy =
     \<lparr>env = Map.empty,
      fetch = (\<lambda>url i. FetchResponse ''OK''),
      deploy_steps = (\<lambda>i. Deployed (MainContract ''0x04bf'') (AccountWallet 0)),
      bind_port = (\<lambda>p. if p = 3002 then BindErrorEvent address_in_use_error
                         else if p = 80 then BindErrorEvent access_error else Bound),
      toString = (\<lambda>m. m)\<rparr>"

text \<open>
  \<^verbatim>\<open>PXE_URL\<close> names a service on another host, which answers its status request with
  \<open>OK\<close>; nothing answers on localhost. In the second world the status request to any URL
  is answered \<open>OK\<close>.
\<close>

definition world_remote_pxe :: world where
  "world_remote_pxe =
     \<lparr>env = [''PXE_URL'' \<mapsto> ''http://pxe.example:9090''],
      fetch = (\<lambda>url i. if url = ''http://pxe.example:9090/status''
                         then FetchResponse ''OK'' else FetchThrew network_error),
      deploy_steps = (\<lambda>i. Deployed (MainContract ''0x04bf'') (AccountWallet 0)),
      bind_port = (\<lambda>p. Bound),
      toString = (\<lambda>m. m)\<rparr>"

definition world_remote_pxe_local_up :: world where
  "world_remote_pxe_local_up = world_remote_pxe\<lparr>fetch := (\<lambda>url i. FetchResponse ''OK'')\<rparr>"

text \<open>
  The first status response is not \<open>OK\<close>, the first deployment fails, every port is free.
\<close>

definition world_one_failed_deploy :: world where
  "world_one_failed_deploy =
     \<lparr>env = Map.empty,
      fetch = (\<lambda>url i. if i = 0 then FetchResponse ''Service Unavailable''
                         else FetchResponse ''OK''),
      deploy_steps = (\<lambda>i. if i = 0 then DeployThrew network_error
                            else Deployed (MainContract ''0x04bf'') (AccountWallet 7)),
      bind_port = (\<lambda>p. Bound),
      toString = (\<lambda>m. m)\<rparr>"


section \<open>Properties of the contract\<close>

text \<open>
  Claim C7. After the constructor has run, on any storage, the map entry at key 1 reads 1
  and \<open>just_field\<close> reads 700; the literals are below the field modulus, so they denote
  themselves, and no other map entry is touched.
\<close>

theorem constructor_initializes:
  "fst (read_field_in_map 1 (snd (constructor s))) = 1
   \<and> fst (get_just_field (snd (constructor s))) = 700
   \<and> to_field 1 = 1 \<and> to_field 700 = 700
   \<and> (\<forall>k. k \<noteq> 1 \<longrightarrow> fst (read_field_in_map k (snd (constructor s)))
                        = fst (read_field_in_map k s))"
  by (simp add: constructor_def read_field_in_map_def get_just_field_def to_field_def
      field_modulus_def)

theorem constructor_initializes_witness:
  "fst (read_field_in_map 1 (snd (constructor empty_storage))) = 1
   \<and> fst (get_just_field (snd (constructor empty_storage))) = 700
   \<and> fst (read_field_in_map 2 (snd (constructor empty_storage))) = 0"
  using constructor_initializes [of empty_storage]
  by (simp add: read_field_in_map_def empty_storage_def)

text \<open>
  Claim C9. Write-then-read round trip: after \<open>set_just_field v\<close>, \<open>get_just_field\<close>
  returns \<open>v\<close>; after \<open>set_field_in_map k v\<close>, \<open>read_field_in_map k\<close> returns \<open>v\<close>.
\<close>

theorem write_then_read:
  "fst (get_just_field (snd (set_just_field v s))) = v
   \<and> fst (read_field_in_map k (snd (set_field_in_map k v s))) = v"
  by (simp add: get_just_field_def set_just_field_def read_field_in_map_def
      set_field_in_map_def)

theorem write_then_read_witness:
  "fst (get_just_field (snd (set_just_field 214 (snd (constructor empty_storage))))) = 214
   \<and> fst (read_field_in_map 5 (snd (set_field_in_map 5 9 (snd (constructor empty_storage))))) = 9"
  using write_then_read [where v = 214 and s = "snd (constructor empty_storage)" and k = 5]
    write_then_read [where v = 9 and s = "snd (constructor empty_storage)" and k = 5]
  by simp

text \<open>
  Claim C10. Frame conditions: \<open>set_just_field\<close> changes no map entry;
  \<open>set_field_in_map k\<close> changes neither \<open>just_field\<close> nor the entry of any other key;
  the two view functions return the storage they were given.
\<close>

theorem storage_frame:
  "field_in_map (snd (set_just_field v s)) = field_in_map s
   \<and> just_field (snd (set_field_in_map k v s)) = just_field s
   \<and> (\<forall>k'. k' \<noteq> k \<longrightarrow> field_in_map (snd (set_field_in_map k v s)) k' = field_in_map s k')
   \<and> snd (get_just_field s) = s
   \<and> snd (read_field_in_map k s) = s"
  by (simp add: get_just_field_def set_just_field_def read_field_in_map_def
      set_field_in_map_def)

theorem storage_frame_witness:
  "field_in_map (snd (set_just_field 214 (snd (constructor empty_storage)))) 1 = 1
   \<and> just_field (snd (set_field_in_map 5 9 (snd (constructor empty_storage)))) = 700
   \<and> field_in_map (snd (set_field_in_map 5 9 (snd (constructor empty_storage)))) 1 = 1
   \<and> snd (get_just_field (snd (constructor empty_storage))) = snd (constructor empty_storage)
   \<and> snd (read_field_in_map 5 (snd (constructor empty_storage))) = snd (constructor empty_storage)"
  using storage_frame [where v = 214 and s = "snd (constructor empty_storage)" and k = 5]
    storage_frame [where v = 9 and s = "snd (constructor empty_storage)" and k = 5]
  by (simp add: constructor_def empty_storage_def to_field_def field_modulus_def)

section \<open>Properties of the Readiness Prober\<close>

lemma emits_simps [simp]:
  "trace (emits es s) = trace s @ es"
  "fetches (emits es s) = fetches s"
  "deploys (emits es s) = deploys s"
  "contractInstance (emits es s) = contractInstance s"
  "walletInstance (emits es s) = walletInstance s"
  by (simp_all add: emits_def)

lemma emits_emits [simp]: "emits es (emits ds s) = emits (ds @ es) s"
  by (simp add: emits_def)

lemma emits_fetches_update [simp]:
  "emits es (s\<lparr>fetches := n\<rparr>) = (emits es s)\<lparr>fetches := n\<rparr>"
  by (simp add: emits_def)

lemma failed_probes_0 [simp]: "failed_probes w start 0 = []"
  by (simp add: failed_probes_def)

lemma failed_probes_Suc_front:
  "failed_probes w start (Suc n) =
     failed_probe (fetch w STATUS_URL start) @ failed_probes w (Suc start) n"
  by (simp add: failed_probes_def map_upt_Suc del: upt_Suc)

lemma loop_failed_step:
  assumes "fetch w STATUS_URL (fetches s) \<noteq> FetchResponse ''OK''"
  shows "ensurePXEReady_loop (Suc fuel) w s =
         ensurePXEReady_loop fuel w
           ((emits (failed_probe (fetch w STATUS_URL (fetches s))) s)\<lparr>fetches := Suc (fetches s)\<rparr>)"
  using assms by (cases "fetch w STATUS_URL (fetches s)") (simp_all add: Let_def)

lemma loop_failed_probes:
  "\<forall>i<n. fetch w STATUS_URL (fetches s + i) \<noteq> FetchResponse ''OK'' \<Longrightarrow>
   ensurePXEReady_loop (n + fuel) w s =
   ensurePXEReady_loop fuel w
     ((emits (failed_probes w (fetches s) n) s)\<lparr>fetches := fetches s + n\<rparr>)"
proof (induction n arbitrary: s)
  case 0
  show ?case by (simp add: emits_def)
next
  case (Suc n)
  let ?s' = "(emits (failed_probe (fetch w STATUS_URL (fetches s))) s)\<lparr>fetches := Suc (fetches s)\<rparr>"
  from Suc.prems have first: "fetch w STATUS_URL (fetches s) \<noteq> FetchResponse ''OK''"
    by (metis add.right_neutral zero_less_Suc)
  from Suc.prems have rest: "\<forall>i<n. fetch w STATUS_URL (fetches ?s' + i) \<noteq> FetchResponse ''OK''"
    by (metis Suc_less_eq add_Suc_shift emits_simps(2) select_convs(2) surjective update_convs(2))
  have "ensurePXEReady_loop (Suc n + fuel) w s = ensurePXEReady_loop (n + fuel) w ?s'"
    using loop_failed_step [OF first] by simp
  also have "\<dots> = ensurePXEReady_loop fuel w
      ((emits (failed_probes w (fetches ?s') n) ?s')\<lparr>fetches := fetches ?s' + n\<rparr>)"
    by (rule Suc.IH [OF rest])
  also have "(emits (failed_probes w (fetches ?s') n) ?s')\<lparr>fetches := fetches ?s' + n\<rparr>
      = (emits (failed_probes w (fetches s) (Suc n)) s)\<lparr>fetches := fetches s + Suc n\<rparr>"
    by (simp add: failed_probes_Suc_front emits_def)
  finally show ?case .
qed

lemma prober_pending:
  assumes "\<forall>i<fuel. fetch w STATUS_URL (fetches s + i) \<noteq> FetchResponse ''OK''"
  shows "ensurePXEReady fuel w s =
         (Pending, (emits (ConsoleLog WaitingForPXE # failed_probes w (fetches s) fuel) s)
                     \<lparr>fetches := fetches s + fuel\<rparr>)"
proof -
  let ?s0 = "emits [ConsoleLog WaitingForPXE] s"
  from assms have "\<forall>i<fuel. fetch w STATUS_URL (fetches ?s0 + i) \<noteq> FetchResponse ''OK''"
    by simp
  from loop_failed_probes [OF this, of 0] show ?thesis
    by (simp add: ensurePXEReady_def)
qed

lemma prober_returned:
  assumes "\<forall>i<n. fetch w STATUS_URL (fetches s + i) \<noteq> FetchResponse ''OK''"
    and "fetch w STATUS_URL (fetches s + n) = FetchResponse ''OK''"
    and "n < fuel"
  shows "ensurePXEReady fuel w s =
         (Returned (),
          (emits (ConsoleLog WaitingForPXE # failed_probes w (fetches s) n @ successful_probe) s)
            \<lparr>fetches := fetches s + n + 1\<rparr>)"
proof -
  let ?s0 = "emits [ConsoleLog WaitingForPXE] s"
  from \<open>n < fuel\<close> obtain m where fuel: "fuel = n + Suc m"
    by (metis add_Suc_right less_iff_Suc_add)
  from assms(1) have "\<forall>i<n. fetch w STATUS_URL (fetches ?s0 + i) \<noteq> FetchResponse ''OK''"
    by simp
  from loop_failed_probes [OF this, of "Suc m"] assms(2) show ?thesis
    by (simp add: ensurePXEReady_def fuel successful_probe_def Let_def)
qed

lemma prober_returned_iff:
  "fst (ensurePXEReady fuel w s) = Returned () \<longleftrightarrow>
   (\<exists>i<fuel. fetch w STATUS_URL (fetches s + i) = FetchResponse ''OK'')"
proof
  assume ret: "fst (ensurePXEReady fuel w s) = Returned ()"
  show "\<exists>i<fuel. fetch w STATUS_URL (fetches s + i) = FetchResponse ''OK''"
  proof (rule ccontr)
    assume "\<not> (\<exists>i<fuel. fetch w STATUS_URL (fetches s + i) = FetchResponse ''OK'')"
    then have "\<forall>i<fuel. fetch w STATUS_URL (fetches s + i) \<noteq> FetchResponse ''OK''"
      by blast
    from prober_pending [OF this] ret show False by simp
  qed
next
  let ?ok = "\<lambda>i. fetch w STATUS_URL (fetches s + i) = FetchResponse ''OK''"
  assume "\<exists>i<fuel. ?ok i"
  then obtain i where i: "i < fuel" "?ok i" by blast
  define n where "n = (LEAST j. ?ok j)"
  have okn: "?ok n" unfolding n_def using i(2) by (rule LeastI)
  have "n \<le> i" unfolding n_def using i(2) by (rule Least_le)
  with i(1) have lt: "n < fuel" by simp
  have "\<forall>j<n. \<not> ?ok j" unfolding n_def using not_less_Least by blast
  from prober_returned [OF this okn lt] show "fst (ensurePXEReady fuel w s) = Returned ()"
    by simp
qed

lemma prober_never_throws: "fst (ensurePXEReady fuel w s) \<noteq> Threw e"
proof (cases "\<exists>i<fuel. fetch w STATUS_URL (fetches s + i) = FetchResponse ''OK''")
  case True
  then show ?thesis using prober_returned_iff [of fuel w s] by simp
next
  case False
  then have "\<forall>i<fuel. fetch w STATUS_URL (fetches s + i) \<noteq> FetchResponse ''OK''" by blast
  from prober_pending [OF this] show ?thesis by simp
qed

lemma count_failed_probe:
  "count_list (failed_probe r) (Fetch STATUS_URL) = 1"
  "count_list (failed_probe r) (SetTimeout 5000) = 1"
  by (cases r; simp)+

lemma count_failed_probes:
  "count_list (failed_probes w start n) (Fetch STATUS_URL) = n"
  "count_list (failed_probes w start n) (SetTimeout 5000) = n"
  by (induction n arbitrary: start; simp add: failed_probes_Suc_front count_failed_probe)+

text \<open>
  Claim C2. The Readiness Prober returns exactly when one of its probes gets a response
  whose status text is \<open>OK\<close>: run for \<open>fuel\<close> iterations, it has returned if and only if
  one of the first \<open>fuel\<close> probes was answered \<open>OK\<close>. It never throws. As long as every
  probe fails (a thrown error or any other status text) it is still pending, having paused
  5000 ms after each probe; when the probe after \<open>n\<close> failed ones is answered \<open>OK\<close> it
  returns after exactly \<open>n + 1\<close> requests and \<open>n\<close> pauses of 5000 ms.
\<close>

theorem ensurePXEReady_returns_exactly_on_OK:
  "(fst (ensurePXEReady fuel w s) = Returned () \<longleftrightarrow>
      (\<exists>i<fuel. fetch w STATUS_URL (fetches s + i) = FetchResponse ''OK''))
   \<and> fst (ensurePXEReady fuel w s) \<noteq> Threw e
   \<and> ((\<forall>i<n. fetch w STATUS_URL (fetches s + i) \<noteq> FetchResponse ''OK'') \<longrightarrow>
        (n = fuel \<longrightarrow>
           ensurePXEReady fuel w s =
             (Pending, (emits (ConsoleLog WaitingForPXE # failed_probes w (fetches s) n) s)
                         \<lparr>fetches := fetches s + n\<rparr>))
      \<and> (n < fuel \<and> fetch w STATUS_URL (fetches s + n) = FetchResponse ''OK'' \<longrightarrow>
           ensurePXEReady fuel w s =
             (Returned (),
              (emits (ConsoleLog WaitingForPXE # failed_probes w (fetches s) n @ successful_probe) s)
                \<lparr>fetches := fetches s + n + 1\<rparr>)))
   \<and> count_list (failed_probes w (fetches s) n @ successful_probe) (Fetch STATUS_URL) = n + 1
   \<and> count_list (failed_probes w (fetches s) n @ successful_probe) (SetTimeout 5000) = n"
  using prober_returned_iff [of fuel w s] prober_never_throws [of fuel w s e]
    prober_pending [of fuel w s] prober_returned [of n w s fuel]
  by (simp add: count_failed_probes successful_probe_def)

text \<open>
  The scenario of two network errors followed by \<open>OK\<close>: three requests, two pauses.
\<close>

theorem ensurePXEReady_two_failures_then_OK:
  "ensurePXEReady 3 world_two_failed_probes init_state =
     (Returned (),
      \<lparr>trace = [ConsoleLog WaitingForPXE,
                Fetch ''http://localhost:8080/status'', ConsoleLog PXENotReady, SetTimeout 5000,
                Fetch ''http://localhost:8080/status'', ConsoleLog PXENotReady, SetTimeout 5000,
                Fetch ''http://localhost:8080/status'', ConsoleLog (ResponseStatusText ''OK''),
                ConsoleLog PXEReady],
       fetches = 3, deploys = 0, contractInstance = None, walletInstance = None\<rparr>)
   \<and> fst (ensurePXEReady 2 world_two_failed_probes init_state) = Pending"
  using ensurePXEReady_returns_exactly_on_OK
          [of 3 world_two_failed_probes init_state network_error 2]
        ensurePXEReady_returns_exactly_on_OK
          [of 2 world_two_failed_probes init_state network_error 2]
  by (simp add: world_two_failed_probes_def init_state_def failed_probes_def successful_probe_def
      STATUS_URL_def emits_def numeral_2_eq_2 less_Suc_eq all_conj_distrib)

section \<open>Properties of the Bridge Server\<close>

lemma bridge_never_throws: "fst (startWebSocketServer fuel w port s) \<noteq> Threw e"
  by (induction fuel w port s rule: startWebSocketServer.induct)
     (simp_all add: Let_def split: bind_outcome.splits)

text \<open>
  The \<^verbatim>\<open>catch\<close> block does what the source intends when the constructor itself throws an
  error with code \<open>EADDRINUSE\<close>: it names the next port and tries it.
\<close>

lemma catch_block_tries_next_port:
  assumes "bind_port w port = BindThrew err" and "error_code err = Some ''EADDRINUSE''"
  shows "startWebSocketServer (Suc fuel) w port s =
         startWebSocketServer fuel w (port + 1)
           (emits [NewWebSocketServer port, ConsoleError (PortInUse port (port + 1))] s)"
  using assms by (simp add: Let_def)

text \<open>
  A failure that the library reports after the constructor has returned never reaches the
  \<^verbatim>\<open>catch\<close> block, whatever its code: no other port is tried and nothing is printed about
  the error.
\<close>

lemma late_bind_failure_not_caught:
  assumes "bind_port w port = BindErrorEvent err"
  shows "startWebSocketServer (Suc fuel) w port s =
         (Returned (),
          emits [NewWebSocketServer port, OnConnection port, ConsoleLog (ServerRunning port),
                 UncaughtException err] s)"
  using assms by (simp add: Let_def)

text \<open>
  Claim C3 says that a bind that fails because the address is in use is retried on the
  next port until a free one is found, and that any other bind failure is logged before
  the bridge gives up. The source attempts this in its \<^verbatim>\<open>catch\<close> block
  (\<open>catch_block_tries_next_port\<close>), but the failure of a bind on a busy port is not thrown by
  the constructor: it arrives as an \<^verbatim>\<open>'error'\<close> event after the \<^verbatim>\<open>try\<close> block has ended.
  With port 3002 taken by another process, \<open>startWebSocketServer\<close> on port 3002 registers
  its handler, prints that the server runs on port 3002 and returns; port 3003 is never
  tried, and the process ends with the unhandled error. A bind that is not permitted
  (port 80) ends the process in the same way, and the message of line 58 is not printed.
\<close>

theorem startWebSocketServer_busy_port_not_retried:
  "startWebSocketServer 3 world_port_3002_busy 3002 init_state =
     (Returned (),
      \<lparr>trace = [NewWebSocketServer 3002, OnConnection 3002, ConsoleLog (ServerRunning 3002),
                UncaughtException address_in_use_error],
       fetches = 0, deploys = 0, contractInstance = None, walletInstance = None\<rparr>)
   \<and> error_code address_in_use_error = Some ''EADDRINUSE''
   \<and> startWebSocketServer 3 world_port_3002_busy 80 init_state =
     (Returned (),
      \<lparr>trace = [NewWebSocketServer 80, OnConnection 80, ConsoleLog (ServerRunning 80),
                UncaughtException access_error],
       fetches = 0, deploys = 0, contractInstance = None, walletInstance = None\<rparr>)"
  by (simp add: world_port_3002_busy_def init_state_def emits_def address_in_use_error_def
      numeral_3_eq_3 Let_def)

lemma sends_append [simp]: "sends (xs @ ys) = sends xs @ sends ys"
  by (induction xs rule: sends.induct) simp_all

lemma JSON_stringify_ACK:
  \<open>JSON_stringify ACK = ''{"success":true,"message":"Test response from WebSocket server"}''\<close>
  by (simp add: ACK_def quote_def escape_char_def)

text \<open>
  Claim C4. Whatever the message (its bytes are arbitrary) and whatever its text, the
  message handler logs the text, sends on the same connection exactly the JSON text of
  the fixed acknowledgement object, and returns without throwing; the reply is the same
  for any two messages.
\<close>

theorem on_message_fixed_reply:
  \<open>on_message w c message s =
     (Returned (),
      emits [ConsoleLog (ReceivedMessage (toString w message)),
             WsSend c ''{"success":true,"message":"Test response from WebSocket server"}''] s)
   \<and> sends (trace (snd (on_message w c message s))) =
       sends (trace s)
       @ [(c, ''{"success":true,"message":"Test response from WebSocket server"}'')]
   \<and> sends (trace (snd (on_message w c message s))) =
       sends (trace (snd (on_message w' c message' s)))\<close>
  by (simp add: on_message_def JSON_stringify_ACK)

theorem on_message_fixed_reply_witness:
  \<open>sends (trace (snd (on_message world_two_failed_probes 1 '''' init_state))) =
     [(1, ''{"success":true,"message":"Test response from WebSocket server"}'')]
   \<and> sends (trace (snd (on_message world_two_failed_probes 1 ''hello'' init_state))) =
     [(1, ''{"success":true,"message":"Test response from WebSocket server"}'')]
   \<and> sends (trace (snd (on_message world_two_failed_probes 1 ''{"a":'' init_state))) =
     [(1, ''{"success":true,"message":"Test response from WebSocket server"}'')]
   \<and> sends (trace (snd (on_message world_two_failed_probes 1 [CHR 0xFF, CHR 0x00] init_state))) =
     [(1, ''{"success":true,"message":"Test response from WebSocket server"}'')]
   \<and> fst (on_message world_two_failed_probes 1 [CHR 0xFF, CHR 0x00] init_state) = Returned ()\<close>
  using on_message_fixed_reply [of world_two_failed_probes 1 "''''" init_state]
    on_message_fixed_reply [of world_two_failed_probes 1 "''hello''" init_state]
    on_message_fixed_reply [of world_two_failed_probes 1 \<open>''{"a":''\<close> init_state]
    on_message_fixed_reply [of world_two_failed_probes 1 "[CHR 0xFF, CHR 0x00]" init_state]
  by (simp add: init_state_def)

section \<open>The status endpoint and the environment\<close>

lemma loop_ignores_env:
  "ensurePXEReady_loop fuel (w\<lparr>env := e\<rparr>) s = ensurePXEReady_loop fuel w s"
  by (induction fuel arbitrary: s) (simp_all add: Let_def split: fetch_outcome.splits)

lemma prober_ignores_env: "ensurePXEReady fuel (w\<lparr>env := e\<rparr>) s = ensurePXEReady fuel w s"
  by (simp add: ensurePXEReady_def loop_ignores_env)

text \<open>
  Claim C5 says that \<^verbatim>\<open>PXE_URL\<close> overrides the base URL of the status endpoint as well as
  that of the RPC endpoint. \<open>setupSandbox\<close> honours the variable; \<open>ensurePXEReady\<close> does not
  read the environment (\<open>prober_ignores_env\<close>) and always requests
  \<^verbatim>\<open>http://localhost:8080/status\<close>. With \<^verbatim>\<open>PXE_URL\<close> set to a healthy service on another
  host and nothing on localhost, the Prober keeps probing localhost and stays pending;
  when localhost answers, the same run probes localhost and creates its client for the
  URL of \<^verbatim>\<open>PXE_URL\<close>.
\<close>

theorem prober_ignores_PXE_URL:
  "PXE_URL world_remote_pxe = ''http://pxe.example:9090''
   \<and> ensurePXEReady 2 world_remote_pxe init_state =
       (Pending,
        \<lparr>trace = [ConsoleLog WaitingForPXE,
                  Fetch ''http://localhost:8080/status'', ConsoleLog PXENotReady, SetTimeout 5000,
                  Fetch ''http://localhost:8080/status'', ConsoleLog PXENotReady, SetTimeout 5000],
         fetches = 2, deploys = 0, contractInstance = None, walletInstance = None\<rparr>)
   \<and> trace (snd (deployContractWithRetry 2 world_remote_pxe_local_up init_state)) =
       [ConsoleLog WaitingForPXE,
        Fetch ''http://localhost:8080/status'', ConsoleLog (ResponseStatusText ''OK''),
        ConsoleLog PXEReady, ConsoleLog DeployingContract, ConsoleLog GoesIntoDeployContract,
        CreatePXEClient ''http://pxe.example:9090'',
        ConsoleLog (MainContractDeployedAt ''0x04bf''),
        ConsoleLog (ContractDeployedAt ''0x04bf'')]"
  by (simp add: world_remote_pxe_local_up_def world_remote_pxe_def PXE_URL_def init_state_def
      ensurePXEReady_def deployContract_def setupSandbox_def STATUS_URL_def emits_def
      numeral_2_eq_2 Let_def)

section \<open>Properties of the Retry Wrapper\<close>

lemma emits_deploys_update [simp]:
  "emits es (s\<lparr>deploys := n\<rparr>) = (emits es s)\<lparr>deploys := n\<rparr>"
  by (simp add: emits_def)

lemma milestones_Nil [simp]: "milestones [] = []"
  by (simp add: milestones_def)

lemma milestones_Cons [simp]:
  "milestones (e # es) = (if prober_internal e then milestones es else e # milestones es)"
  by (simp add: milestones_def)

lemma milestones_append [simp]: "milestones (xs @ ys) = milestones xs @ milestones ys"
  by (simp add: milestones_def)

lemma milestones_failed_probe [simp]: "milestones (failed_probe r) = []"
  by (cases r) simp_all

lemma milestones_failed_probes [simp]: "milestones (failed_probes w start n) = []"
  by (induction n arbitrary: start) (simp_all add: failed_probes_Suc_front)

lemma milestones_successful_probe [simp]:
  "milestones successful_probe = [ConsoleLog PXEReady]"
  by (simp add: successful_probe_def)

lemma deploy_rounds_0 [simp]: "deploy_rounds w start 0 = []"
  by (simp add: deploy_rounds_def)

lemma deploy_rounds_Suc_front:
  "deploy_rounds w start (Suc n) =
     deploy_round w (deploy_steps w start) @ deploy_rounds w (Suc start) n"
  by (simp add: deploy_rounds_def map_upt_Suc del: upt_Suc)

lemma prober_cases:
  obtains (returned) n where "n < fuel"
      "ensurePXEReady fuel w s =
         (Returned (),
          (emits (ConsoleLog WaitingForPXE # failed_probes w (fetches s) n @ successful_probe) s)
            \<lparr>fetches := fetches s + n + 1\<rparr>)"
  | (pending)
      "ensurePXEReady fuel w s =
         (Pending, (emits (ConsoleLog WaitingForPXE # failed_probes w (fetches s) fuel) s)
                     \<lparr>fetches := fetches s + fuel\<rparr>)"
proof (cases "\<exists>i<fuel. fetch w STATUS_URL (fetches s + i) = FetchResponse ''OK''")
  case True
  let ?ok = "\<lambda>i. fetch w STATUS_URL (fetches s + i) = FetchResponse ''OK''"
  from True obtain i where i: "i < fuel" "?ok i" by blast
  define n where "n = (LEAST j. ?ok j)"
  have okn: "?ok n" unfolding n_def using i(2) by (rule LeastI)
  have "n \<le> i" unfolding n_def using i(2) by (rule Least_le)
  with i(1) have lt: "n < fuel" by simp
  have "\<forall>j<n. \<not> ?ok j" unfolding n_def using not_less_Least by blast
  from prober_returned [OF this okn lt] lt show ?thesis by (rule returned [rotated])
next
  case False
  then have "\<forall>i<fuel. fetch w STATUS_URL (fetches s + i) \<noteq> FetchResponse ''OK''" by blast
  from prober_pending [OF this] show ?thesis by (rule pending)
qed

lemma prober_frame:
  "deploys (snd (ensurePXEReady fuel w s)) = deploys s"
  "contractInstance (snd (ensurePXEReady fuel w s)) = contractInstance s"
  "walletInstance (snd (ensurePXEReady fuel w s)) = walletInstance s"
  by (cases fuel w s rule: prober_cases; simp)+

lemma prober_milestones:
  "milestones (trace (snd (ensurePXEReady fuel w s))) =
     milestones (trace s)
     @ (if fst (ensurePXEReady fuel w s) = Returned ()
        then [ConsoleLog WaitingForPXE, ConsoleLog PXEReady] else [ConsoleLog WaitingForPXE])"
  by (cases fuel w s rule: prober_cases) simp_all

lemma retry_Suc_pending:
  assumes "fst (ensurePXEReady fuel w s) = Pending"
  shows "deployContractWithRetry (Suc fuel) w s = (Pending, snd (ensurePXEReady fuel w s))"
  using assms by (cases "ensurePXEReady fuel w s") simp

lemma retry_Suc_success:
  assumes "fst (ensurePXEReady fuel w s) = Returned ()"
    and "deploy_steps w (deploys s) = Deployed c a"
  shows "deployContractWithRetry (Suc fuel) w s =
         (Returned \<lparr>contract = c, wallet = a\<rparr>,
          after_successful_deploy w c (snd (ensurePXEReady fuel w s)))"
  using assms prober_frame(1) [of fuel w s]
  by (cases "ensurePXEReady fuel w s")
     (simp add: deployContract_def setupSandbox_def after_successful_deploy_def Let_def)

lemma retry_Suc_failure:
  assumes "fst (ensurePXEReady fuel w s) = Returned ()"
    and "deploy_steps w (deploys s) = DeployThrew e"
  shows "deployContractWithRetry (Suc fuel) w s =
         deployContractWithRetry fuel w
           (after_failed_deploy w e (snd (ensurePXEReady fuel w s)))"
  using assms prober_frame(1) [of fuel w s]
  by (cases "ensurePXEReady fuel w s")
     (simp add: deployContract_def setupSandbox_def after_failed_deploy_def Let_def)

declare deployContractWithRetry.simps(2) [simp del]

lemma retry_induct [case_names zero pending success failure]:
  fixes P :: "nat \<Rightarrow> state \<Rightarrow> bool"
  assumes zero: "\<And>s. P 0 s"
    and pending: "\<And>fuel s. fst (ensurePXEReady fuel w s) = Pending \<Longrightarrow> P (Suc fuel) s"
    and success: "\<And>fuel s c a. fst (ensurePXEReady fuel w s) = Returned () \<Longrightarrow>
                   deploy_steps w (deploys s) = Deployed c a \<Longrightarrow> P (Suc fuel) s"
    and failure: "\<And>fuel s e. fst (ensurePXEReady fuel w s) = Returned () \<Longrightarrow>
                   deploy_steps w (deploys s) = DeployThrew e \<Longrightarrow>
                   P fuel (after_failed_deploy w e (snd (ensurePXEReady fuel w s))) \<Longrightarrow>
                   P (Suc fuel) s"
  shows "P fuel s"
proof (induction fuel arbitrary: s)
  case 0
  show ?case by (rule zero)
next
  case (Suc fuel)
  show ?case
  proof (cases "fst (ensurePXEReady fuel w s)")
    case (Returned u)
    then have ret: "fst (ensurePXEReady fuel w s) = Returned ()" by simp
    show ?thesis
    proof (cases "deploy_steps w (deploys s)")
      case (DeployThrew e)
      from ret DeployThrew Suc.IH show ?thesis by (rule failure)
    next
      case (Deployed c a)
      from ret Deployed show ?thesis by (rule success)
    qed
  next
    case (Threw e)
    with prober_never_throws show ?thesis by blast
  next
    case Pending
    then show ?thesis by (rule pending)
  qed
qed

lemma after_failed_deploy_simps [simp]:
  "deploys (after_failed_deploy w e s1) = Suc (deploys s1)"
  "fetches (after_failed_deploy w e s1) = fetches s1"
  "contractInstance (after_failed_deploy w e s1) = contractInstance s1"
  "walletInstance (after_failed_deploy w e s1) = walletInstance s1"
  "trace (after_failed_deploy w e s1) =
     trace s1 @ [ConsoleLog DeployingContract, ConsoleLog GoesIntoDeployContract,
                 CreatePXEClient (PXE_URL w),
                 ConsoleError (DeploymentFailed e), SetTimeout 10000]"
  by (simp_all add: after_failed_deploy_def)

lemma after_successful_deploy_simps [simp]:
  "deploys (after_successful_deploy w c s1) = Suc (deploys s1)"
  "fetches (after_successful_deploy w c s1) = fetches s1"
  "contractInstance (after_successful_deploy w c s1) = contractInstance s1"
  "walletInstance (after_successful_deploy w c s1) = walletInstance s1"
  "trace (after_successful_deploy w c s1) =
     trace s1 @ [ConsoleLog DeployingContract, ConsoleLog GoesIntoDeployContract,
                 CreatePXEClient (PXE_URL w),
                 ConsoleLog (MainContractDeployedAt (address c)),
                 ConsoleLog (ContractDeployedAt (address c))]"
  by (simp_all add: after_successful_deploy_def)

lemma retry_never_throws: "fst (deployContractWithRetry fuel w s) \<noteq> Threw e"
proof (induction fuel s rule: retry_induct [where w = w])
  case (zero s)
  show ?case by simp
next
  case (pending fuel s)
  then show ?case by (simp add: retry_Suc_pending)
next
  case (success fuel s c a)
  then show ?case by (simp add: retry_Suc_success)
next
  case (failure fuel s err)
  then show ?case by (simp add: retry_Suc_failure)
qed

lemma failed_round_milestones:
  assumes "fst (ensurePXEReady fuel w s) = Returned ()"
  shows "milestones (trace (after_failed_deploy w e (snd (ensurePXEReady fuel w s)))) =
         milestones (trace s) @ deploy_round w (DeployThrew e)"
  using assms by (simp add: prober_milestones)

lemma successful_round_milestones:
  assumes "fst (ensurePXEReady fuel w s) = Returned ()"
  shows "milestones (trace (after_successful_deploy w c (snd (ensurePXEReady fuel w s)))) =
         milestones (trace s) @ deploy_round w (Deployed c a)"
  using assms by (simp add: prober_milestones)

lemma retry_returned_shape:
  "fst (deployContractWithRetry fuel w s) = Returned r \<Longrightarrow>
   \<exists>j<fuel. (\<forall>i<j. deploy_failed (deploy_steps w (deploys s + i)))
     \<and> deploy_steps w (deploys s + j) = Deployed (contract r) (wallet r)
     \<and> milestones (trace (snd (deployContractWithRetry fuel w s))) =
         milestones (trace s) @ deploy_rounds w (deploys s) (Suc j)"
proof (induction fuel s rule: retry_induct [where w = w])
  case (zero s)
  then show ?case by simp
next
  case (pending fuel s)
  then show ?case by (simp add: retry_Suc_pending)
next
  case (success fuel s c a)
  from success(3) have r: "r = \<lparr>contract = c, wallet = a\<rparr>"
    by (simp add: retry_Suc_success [OF success(1,2)])
  have "milestones (trace (snd (deployContractWithRetry (Suc fuel) w s))) =
        milestones (trace s) @ deploy_rounds w (deploys s) (Suc 0)"
    using successful_round_milestones [OF success(1), of c a] success(2)
    by (simp add: retry_Suc_success [OF success(1,2)] deploy_rounds_Suc_front)
  with success(2) r show ?case
    by (intro exI [of _ 0]) simp
next
  case (failure fuel s e)
  let ?s2 = "after_failed_deploy w e (snd (ensurePXEReady fuel w s))"
  have unfold: "deployContractWithRetry (Suc fuel) w s = deployContractWithRetry fuel w ?s2"
    by (rule retry_Suc_failure [OF failure(1,2)])
  have d2: "deploys ?s2 = Suc (deploys s)" by (simp add: prober_frame)
  from failure(3) [unfolded d2] failure(4) unfold
  obtain j where j: "j < fuel"
      "\<forall>i<j. deploy_failed (deploy_steps w (Suc (deploys s) + i))"
      "deploy_steps w (Suc (deploys s) + j) = Deployed (contract r) (wallet r)"
      "milestones (trace (snd (deployContractWithRetry fuel w ?s2))) =
         milestones (trace ?s2) @ deploy_rounds w (Suc (deploys s)) (Suc j)"
    by auto
  have "\<forall>i<Suc j. deploy_failed (deploy_steps w (deploys s + i))"
  proof (intro allI impI)
    fix i assume "i < Suc j"
    then show "deploy_failed (deploy_steps w (deploys s + i))"
      using j(2) failure(2) by (cases i) simp_all
  qed
  moreover have "milestones (trace (snd (deployContractWithRetry (Suc fuel) w s))) =
      milestones (trace s) @ deploy_rounds w (deploys s) (Suc (Suc j))"
    using j(4) [unfolded failed_round_milestones [OF failure(1)]] failure(2)
    by (simp add: unfold deploy_rounds_Suc_front [of w "deploys s"])
  ultimately show ?case using j(1,3)
    by (intro exI [of _ "Suc j"]) simp
qed

lemma retry_pending_shape:
  "fst (deployContractWithRetry fuel w s) = Pending \<Longrightarrow>
   \<exists>j\<le>fuel. (\<forall>i<j. deploy_failed (deploy_steps w (deploys s + i)))
     \<and> (milestones (trace (snd (deployContractWithRetry fuel w s))) =
           milestones (trace s) @ deploy_rounds w (deploys s) j
        \<or> milestones (trace (snd (deployContractWithRetry fuel w s))) =
           milestones (trace s) @ deploy_rounds w (deploys s) j @ [ConsoleLog WaitingForPXE])"
proof (induction fuel s rule: retry_induct [where w = w])
  case (zero s)
  then show ?case by simp
next
  case (pending fuel s)
  then show ?case
    by (intro exI [of _ 0]) (simp add: retry_Suc_pending prober_milestones)
next
  case (success fuel s c a)
  then show ?case by (simp add: retry_Suc_success)
next
  case (failure fuel s e)
  let ?s2 = "after_failed_deploy w e (snd (ensurePXEReady fuel w s))"
  have unfold: "deployContractWithRetry (Suc fuel) w s = deployContractWithRetry fuel w ?s2"
    by (rule retry_Suc_failure [OF failure(1,2)])
  have d2: "deploys ?s2 = Suc (deploys s)" by (simp add: prober_frame)
  have m2: "milestones (trace ?s2) = milestones (trace s) @ deploy_round w (DeployThrew e)"
    by (rule failed_round_milestones [OF failure(1)])
  from failure(3) [unfolded d2] failure(4) unfold
  obtain j where j: "j \<le> fuel"
      "\<forall>i<j. deploy_failed (deploy_steps w (Suc (deploys s) + i))"
      "milestones (trace (snd (deployContractWithRetry fuel w ?s2))) =
         milestones (trace ?s2) @ deploy_rounds w (Suc (deploys s)) j
       \<or> milestones (trace (snd (deployContractWithRetry fuel w ?s2))) =
         milestones (trace ?s2) @ deploy_rounds w (Suc (deploys s)) j @ [ConsoleLog WaitingForPXE]"
    by auto
  have "\<forall>i<Suc j. deploy_failed (deploy_steps w (deploys s + i))"
  proof (intro allI impI)
    fix i assume "i < Suc j"
    then show "deploy_failed (deploy_steps w (deploys s + i))"
      using j(2) failure(2) by (cases i) simp_all
  qed
  moreover have "milestones (trace (snd (deployContractWithRetry (Suc fuel) w s))) =
        milestones (trace s) @ deploy_rounds w (deploys s) (Suc j)
      \<or> milestones (trace (snd (deployContractWithRetry (Suc fuel) w s))) =
        milestones (trace s) @ deploy_rounds w (deploys s) (Suc j) @ [ConsoleLog WaitingForPXE]"
    using j(3) [unfolded m2] failure(2)
    by (simp add: unfold deploy_rounds_Suc_front [of w "deploys s"])
  ultimately show ?case using j(1)
    by (intro exI [of _ "Suc j"]) simp
qed

lemma prober_live:
  assumes "\<forall>m. \<exists>i\<ge>m. fetch w STATUS_URL i = FetchResponse ''OK''"
  shows "\<exists>n s1. \<forall>fuel>n. ensurePXEReady fuel w s = (Returned (), s1)"
proof -
  let ?ok = "\<lambda>i. fetch w STATUS_URL (fetches s + i) = FetchResponse ''OK''"
  from assms obtain i where "fetches s \<le> i" "fetch w STATUS_URL i = FetchResponse ''OK''"
    by blast
  then have ex: "?ok (i - fetches s)" by simp
  define n where "n = (LEAST j. ?ok j)"
  have okn: "?ok n" unfolding n_def using ex by (rule LeastI)
  have first: "\<forall>j<n. \<not> ?ok j" unfolding n_def using not_less_Least by blast
  show ?thesis
    using prober_returned [OF first okn] by blast
qed

lemma retry_returns:
  assumes live: "\<forall>m. \<exists>i\<ge>m. fetch w STATUS_URL i = FetchResponse ''OK''"
    and fails: "\<forall>i<k. deploy_failed (deploy_steps w (deploys s + i))"
    and succ: "deploy_steps w (deploys s + k) = Deployed c a"
  shows "\<exists>fuel0. \<forall>fuel\<ge>fuel0.
           fst (deployContractWithRetry fuel w s) = Returned \<lparr>contract = c, wallet = a\<rparr>"
  using fails succ
proof (induction k arbitrary: s)
  case 0
  from prober_live [OF live, of s] obtain n s1
    where ready: "\<forall>fuel>n. ensurePXEReady fuel w s = (Returned (), s1)" by blast
  have "fst (deployContractWithRetry fuel w s) = Returned \<lparr>contract = c, wallet = a\<rparr>"
    if "Suc (Suc n) \<le> fuel" for fuel
  proof -
    from that obtain f where f: "fuel = Suc f" "n < f" by (cases fuel) auto
    from ready f(2) have "fst (ensurePXEReady f w s) = Returned ()" by simp
    from retry_Suc_success [OF this] "0.prems"(2) show ?thesis by (simp add: f(1))
  qed
  then show ?case by blast
next
  case (Suc k)
  from prober_live [OF live, of s] obtain n s1
    where ready: "\<forall>fuel>n. ensurePXEReady fuel w s = (Returned (), s1)" by blast
  from Suc.prems(1) have "deploy_failed (deploy_steps w (deploys s))"
    by (metis add.right_neutral zero_less_Suc)
  then obtain e where e: "deploy_steps w (deploys s) = DeployThrew e"
    by (cases "deploy_steps w (deploys s)") simp_all
  let ?s2 = "after_failed_deploy w e s1"
  have "s1 = snd (ensurePXEReady (Suc n) w s)" using ready by simp
  then have d2: "deploys ?s2 = Suc (deploys s)" by (simp add: prober_frame)
  have fails2: "\<forall>i<k. deploy_failed (deploy_steps w (deploys ?s2 + i))"
    using Suc.prems(1) unfolding d2 by (metis Suc_less_eq add_Suc_shift)
  have succ2: "deploy_steps w (deploys ?s2 + k) = Deployed c a"
    using Suc.prems(2) unfolding d2 by simp
  from Suc.IH [OF fails2 succ2] obtain fuel0 where
    ih: "\<forall>fuel\<ge>fuel0.
           fst (deployContractWithRetry fuel w ?s2) = Returned \<lparr>contract = c, wallet = a\<rparr>"
    by blast
  have "fst (deployContractWithRetry fuel w s) = Returned \<lparr>contract = c, wallet = a\<rparr>"
    if "Suc (max (Suc n) fuel0) \<le> fuel" for fuel
  proof -
    from that obtain f where f: "fuel = Suc f" "n < f" "fuel0 \<le> f" by (cases fuel) auto
    from ready f(2) have r: "ensurePXEReady f w s = (Returned (), s1)" by simp
    then have "fst (ensurePXEReady f w s) = Returned ()" by simp
    from retry_Suc_failure [OF this e] r ih f(3) show ?thesis by (simp add: f(1))
  qed
  then show ?case by blast
qed

lemma first_success_unique:
  assumes "\<forall>i<k. deploy_failed (deploy_steps w (start + i))"
    and "deploy_steps w (start + k) = Deployed c a"
    and "\<forall>i<j. deploy_failed (deploy_steps w (start + i))"
    and "deploy_steps w (start + j) = Deployed c' a'"
  shows "j = k"
proof (rule ccontr)
  assume "j \<noteq> k"
  then consider "j < k" | "k < j" by linarith
  then show False
  proof cases
    case 1
    with assms(1,4) show False by auto
  next
    case 2
    with assms(2,3) show False by auto
  qed
qed

text \<open>
  Claim C1. Suppose the status endpoint answers \<open>OK\<close> again and again (so that every call
  of the Prober completes), the next \<open>k\<close> runs of the Deployer fail and the one after them
  returns contract \<open>c\<close> and wallet \<open>a\<close>. Then \<open>deployContractWithRetry\<close> returns exactly that
  result (from some amount of fuel on), and between the Prober's internal events its trace
  consists of \<open>k + 1\<close> rounds: in each the Prober is started and reports ready before the
  Deployer starts, and each of the \<open>k\<close> failures is followed by the error message and a
  pause of 10000 ms before the next round. In every run, \<open>deployContractWithRetry\<close> never
  throws, and when it has returned, it returns the result of the first run of the Deployer
  that succeeded, so it ends only on success.
\<close>

theorem deployContractWithRetry_retries_until_success:
  "((\<forall>m. \<exists>i\<ge>m. fetch w STATUS_URL i = FetchResponse ''OK'')
     \<and> (\<forall>i<k. deploy_failed (deploy_steps w (deploys s + i)))
     \<and> deploy_steps w (deploys s + k) = Deployed c a \<longrightarrow>
       (\<exists>fuel0. \<forall>fuel\<ge>fuel0.
          fst (deployContractWithRetry fuel w s) = Returned \<lparr>contract = c, wallet = a\<rparr>
        \<and> milestones (trace (snd (deployContractWithRetry fuel w s))) =
            milestones (trace s) @ deploy_rounds w (deploys s) (Suc k)))
   \<and> fst (deployContractWithRetry fuel w s) \<noteq> Threw e
   \<and> (fst (deployContractWithRetry fuel w s) = Returned r \<longrightarrow>
        (\<exists>j<fuel. (\<forall>i<j. deploy_failed (deploy_steps w (deploys s + i)))
           \<and> deploy_steps w (deploys s + j) = Deployed (contract r) (wallet r)
           \<and> milestones (trace (snd (deployContractWithRetry fuel w s))) =
               milestones (trace s) @ deploy_rounds w (deploys s) (Suc j)))"
proof (intro conjI impI)
  assume hyp: "(\<forall>m. \<exists>i\<ge>m. fetch w STATUS_URL i = FetchResponse ''OK'')
     \<and> (\<forall>i<k. deploy_failed (deploy_steps w (deploys s + i)))
     \<and> deploy_steps w (deploys s + k) = Deployed c a"
  then have fails: "\<forall>i<k. deploy_failed (deploy_steps w (deploys s + i))"
    and succ: "deploy_steps w (deploys s + k) = Deployed c a" by simp_all
  from hyp retry_returns [of w k s c a] obtain fuel0 where
    ret: "\<forall>fuel\<ge>fuel0.
            fst (deployContractWithRetry fuel w s) = Returned \<lparr>contract = c, wallet = a\<rparr>"
    by blast
  have "milestones (trace (snd (deployContractWithRetry fuel w s))) =
          milestones (trace s) @ deploy_rounds w (deploys s) (Suc k)"
    if "fuel0 \<le> fuel" for fuel
  proof -
    from ret that
    have "fst (deployContractWithRetry fuel w s) = Returned \<lparr>contract = c, wallet = a\<rparr>"
      by simp
    from retry_returned_shape [OF this] obtain j where
      j: "\<forall>i<j. deploy_failed (deploy_steps w (deploys s + i))"
         "deploy_steps w (deploys s + j) = Deployed c a"
         "milestones (trace (snd (deployContractWithRetry fuel w s))) =
            milestones (trace s) @ deploy_rounds w (deploys s) (Suc j)"
      by auto
    from first_success_unique [OF fails succ j(1,2)] j(3) show ?thesis by simp
  qed
  with ret show "\<exists>fuel0. \<forall>fuel\<ge>fuel0.
          fst (deployContractWithRetry fuel w s) = Returned \<lparr>contract = c, wallet = a\<rparr>
        \<and> milestones (trace (snd (deployContractWithRetry fuel w s))) =
            milestones (trace s) @ deploy_rounds w (deploys s) (Suc k)"
    by blast
next
  show "fst (deployContractWithRetry fuel w s) \<noteq> Threw e"
    by (rule retry_never_throws)
next
  assume "fst (deployContractWithRetry fuel w s) = Returned r"
  then show "\<exists>j<fuel. (\<forall>i<j. deploy_failed (deploy_steps w (deploys s + i)))
           \<and> deploy_steps w (deploys s + j) = Deployed (contract r) (wallet r)
           \<and> milestones (trace (snd (deployContractWithRetry fuel w s))) =
               milestones (trace s) @ deploy_rounds w (deploys s) (Suc j)"
    by (rule retry_returned_shape)
qed

lemma world_one_failed_deploy_live:
  "\<forall>m. \<exists>i\<ge>m. fetch world_one_failed_deploy STATUS_URL i = FetchResponse ''OK''"
proof
  fix m
  have "m \<le> Suc m \<and> fetch world_one_failed_deploy STATUS_URL (Suc m) = FetchResponse ''OK''"
    by (simp add: world_one_failed_deploy_def)
  then show "\<exists>i\<ge>m. fetch world_one_failed_deploy STATUS_URL i = FetchResponse ''OK''"
    by blast
qed

text \<open>
  The scenario of one failed deployment followed by a successful one.
\<close>

theorem deployContractWithRetry_one_failure_then_success:
  "(\<exists>fuel0. \<forall>fuel\<ge>fuel0.
      fst (deployContractWithRetry fuel world_one_failed_deploy init_state) =
        Returned \<lparr>contract = MainContract ''0x04bf'', wallet = AccountWallet 7\<rparr>
    \<and> milestones (trace (snd (deployContractWithRetry fuel world_one_failed_deploy init_state))) =
        [ConsoleLog WaitingForPXE, ConsoleLog PXEReady,
         ConsoleLog DeployingContract, ConsoleLog GoesIntoDeployContract,
         CreatePXEClient ''http://localhost:8080'',
         ConsoleError (DeploymentFailed network_error), SetTimeout 10000,
         ConsoleLog WaitingForPXE, ConsoleLog PXEReady,
         ConsoleLog DeployingContract, ConsoleLog GoesIntoDeployContract,
         CreatePXEClient ''http://localhost:8080'',
         ConsoleLog (MainContractDeployedAt ''0x04bf''),
         ConsoleLog (ContractDeployedAt ''0x04bf'')])
   \<and> deployContractWithRetry 3 world_one_failed_deploy init_state =
       (Returned \<lparr>contract = MainContract ''0x04bf'', wallet = AccountWallet 7\<rparr>,
        \<lparr>trace =
           [ConsoleLog WaitingForPXE,
            Fetch ''http://localhost:8080/status'',
            ConsoleLog (ResponseStatusText ''Service Unavailable''), SetTimeout 5000,
            Fetch ''http://localhost:8080/status'', ConsoleLog (ResponseStatusText ''OK''),
            ConsoleLog PXEReady,
            ConsoleLog DeployingContract, ConsoleLog GoesIntoDeployContract,
            CreatePXEClient ''http://localhost:8080'',
            ConsoleError (DeploymentFailed network_error), SetTimeout 10000,
            ConsoleLog WaitingForPXE,
            Fetch ''http://localhost:8080/status'', ConsoleLog (ResponseStatusText ''OK''),
            ConsoleLog PXEReady,
            ConsoleLog DeployingContract, ConsoleLog GoesIntoDeployContract,
            CreatePXEClient ''http://localhost:8080'',
            ConsoleLog (MainContractDeployedAt ''0x04bf''),
            ConsoleLog (ContractDeployedAt ''0x04bf'')],
         fetches = 3, deploys = 2, contractInstance = None, walletInstance = None\<rparr>)"
proof -
  have fails: "\<forall>i<1. deploy_failed
      (deploy_steps world_one_failed_deploy (deploys init_state + i))"
    by (simp add: world_one_failed_deploy_def init_state_def)
  have succ: "deploy_steps world_one_failed_deploy (deploys init_state + 1) =
      Deployed (MainContract ''0x04bf'') (AccountWallet 7)"
    by (simp add: world_one_failed_deploy_def init_state_def)
  have rounds: "milestones (trace init_state)
      @ deploy_rounds world_one_failed_deploy (deploys init_state) (Suc 1) =
        [ConsoleLog WaitingForPXE, ConsoleLog PXEReady,
         ConsoleLog DeployingContract, ConsoleLog GoesIntoDeployContract,
         CreatePXEClient ''http://localhost:8080'',
         ConsoleError (DeploymentFailed network_error), SetTimeout 10000,
         ConsoleLog WaitingForPXE, ConsoleLog PXEReady,
         ConsoleLog DeployingContract, ConsoleLog GoesIntoDeployContract,
         CreatePXEClient ''http://localhost:8080'',
         ConsoleLog (MainContractDeployedAt ''0x04bf''),
         ConsoleLog (ContractDeployedAt ''0x04bf'')]"
    by (simp add: world_one_failed_deploy_def init_state_def deploy_rounds_def PXE_URL_def)
  have run: "deployContractWithRetry 3 world_one_failed_deploy init_state =
       (Returned \<lparr>contract = MainContract ''0x04bf'', wallet = AccountWallet 7\<rparr>,
        \<lparr>trace =
           [ConsoleLog WaitingForPXE,
            Fetch ''http://localhost:8080/status'',
            ConsoleLog (ResponseStatusText ''Service Unavailable''), SetTimeout 5000,
            Fetch ''http://localhost:8080/status'', ConsoleLog (ResponseStatusText ''OK''),
            ConsoleLog PXEReady,
            ConsoleLog DeployingContract, ConsoleLog GoesIntoDeployContract,
            CreatePXEClient ''http://localhost:8080'',
            ConsoleError (DeploymentFailed network_error), SetTimeout 10000,
            ConsoleLog WaitingForPXE,
            Fetch ''http://localhost:8080/status'', ConsoleLog (ResponseStatusText ''OK''),
            ConsoleLog PXEReady,
            ConsoleLog DeployingContract, ConsoleLog GoesIntoDeployContract,
            CreatePXEClient ''http://localhost:8080'',
            ConsoleLog (MainContractDeployedAt ''0x04bf''),
            ConsoleLog (ContractDeployedAt ''0x04bf'')],
         fetches = 3, deploys = 2, contractInstance = None, walletInstance = None\<rparr>)"
    by (simp add: deployContractWithRetry.simps world_one_failed_deploy_def init_state_def
        ensurePXEReady_def deployContract_def setupSandbox_def PXE_URL_def STATUS_URL_def
        emits_def numeral_3_eq_3 Let_def)
  from deployContractWithRetry_retries_until_success
         [of world_one_failed_deploy 1 init_state "MainContract ''0x04bf''" "AccountWallet 7"]
       world_one_failed_deploy_live fails succ
  have "\<exists>fuel0. \<forall>fuel\<ge>fuel0.
      fst (deployContractWithRetry fuel world_one_failed_deploy init_state) =
        Returned \<lparr>contract = MainContract ''0x04bf'', wallet = AccountWallet 7\<rparr>
    \<and> milestones (trace (snd (deployContractWithRetry fuel world_one_failed_deploy init_state))) =
        milestones (trace init_state)
        @ deploy_rounds world_one_failed_deploy (deploys init_state) (Suc 1)"
    by blast
  with run show ?thesis unfolding rounds by blast
qed

section \<open>Properties of the module body\<close>

lemma run_append:
  "run ph (xs @ ys) = (case run ph xs of None \<Rightarrow> None | Some q \<Rightarrow> run q ys)"
  by (induction xs arbitrary: ph) (simp_all split: option.splits)

lemma run_append_Some: "run ph xs = Some q \<Longrightarrow> run ph (xs @ ys) = run q ys"
  by (simp add: run_append)

lemma step_internal: "prober_internal e \<Longrightarrow> step ph e = Some ph"
  by (induction e rule: prober_internal.induct) simp_all

lemma run_milestones: "run ph (milestones tr) = run ph tr"
  by (induction tr arbitrary: ph) (simp_all add: step_internal split: option.splits)

lemma run_failed_rounds:
  "\<forall>i<j. deploy_failed (deploy_steps w (start + i)) \<Longrightarrow>
   run Idle (deploy_rounds w start j) = Some Idle"
proof (induction j arbitrary: start)
  case 0
  show ?case by simp
next
  case (Suc j)
  from Suc.prems have "deploy_failed (deploy_steps w start)"
    by (metis add.right_neutral zero_less_Suc)
  then obtain e where e: "deploy_steps w start = DeployThrew e"
    by (cases "deploy_steps w start") simp_all
  from Suc.prems have "\<forall>i<j. deploy_failed (deploy_steps w (Suc start + i))"
    by (metis Suc_less_eq add_Suc_shift)
  from Suc.IH [OF this] e show ?case
    by (simp add: deploy_rounds_Suc_front)
qed

lemma run_rounds_success:
  assumes "\<forall>i<j. deploy_failed (deploy_steps w (start + i))"
    and "deploy_steps w (start + j) = Deployed c a"
  shows "run Idle (deploy_rounds w start (Suc j)) = Some DeployedOK"
proof -
  have "deploy_rounds w start (Suc j) =
        deploy_rounds w start j @ deploy_round w (deploy_steps w (start + j))"
    by (simp add: deploy_rounds_def)
  with run_failed_rounds [OF assms(1)] assms(2) show ?thesis
    by (simp add: run_append)
qed

lemma retry_phase_returned:
  assumes "run ph (trace s) = Some Idle"
    and "fst (deployContractWithRetry fuel w s) = Returned r"
  shows "run ph (trace (snd (deployContractWithRetry fuel w s))) = Some DeployedOK"
proof -
  from retry_returned_shape [OF assms(2)] obtain j where
    j: "\<forall>i<j. deploy_failed (deploy_steps w (deploys s + i))"
       "deploy_steps w (deploys s + j) = Deployed (contract r) (wallet r)"
       "milestones (trace (snd (deployContractWithRetry fuel w s))) =
          milestones (trace s) @ deploy_rounds w (deploys s) (Suc j)"
    by auto
  have "run ph (trace (snd (deployContractWithRetry fuel w s))) =
        run ph (milestones (trace s) @ deploy_rounds w (deploys s) (Suc j))"
    using j(3) run_milestones [of ph "trace (snd (deployContractWithRetry fuel w s))"] by simp
  also have "\<dots> = run Idle (deploy_rounds w (deploys s) (Suc j))"
    using assms(1) by (simp add: run_append run_milestones)
  finally show ?thesis using run_rounds_success [OF j(1,2)] by simp
qed

lemma retry_phase_pending:
  assumes "run ph (trace s) = Some Idle"
    and "fst (deployContractWithRetry fuel w s) = Pending"
  shows "run ph (trace (snd (deployContractWithRetry fuel w s))) \<noteq> None"
proof -
  let ?tr = "trace (snd (deployContractWithRetry fuel w s))"
  from retry_pending_shape [OF assms(2)] obtain j where
    j: "\<forall>i<j. deploy_failed (deploy_steps w (deploys s + i))"
       "milestones ?tr = milestones (trace s) @ deploy_rounds w (deploys s) j
        \<or> milestones ?tr =
            milestones (trace s) @ deploy_rounds w (deploys s) j @ [ConsoleLog WaitingForPXE]"
    by auto
  have pre: "run ph (milestones (trace s) @ deploy_rounds w (deploys s) j) = Some Idle"
    using assms(1) run_failed_rounds [OF j(1)] by (simp add: run_append run_milestones)
  from j(2) have "run ph (milestones ?tr) \<noteq> None"
  proof
    assume "milestones ?tr = milestones (trace s) @ deploy_rounds w (deploys s) j"
    with pre show ?thesis by simp
  next
    assume "milestones ?tr =
      milestones (trace s) @ deploy_rounds w (deploys s) j @ [ConsoleLog WaitingForPXE]"
    then have "run ph (milestones ?tr) = run Idle [ConsoleLog WaitingForPXE]"
      using run_append_Some [OF pre, of "[ConsoleLog WaitingForPXE]"] by simp
    then show ?thesis by simp
  qed
  then show ?thesis by (simp add: run_milestones)
qed

lemma bridge_phase:
  "run ph (trace s) = Some q \<Longrightarrow> (q = Stored \<and> port = 3002) \<or> q = Binding \<Longrightarrow>
   run ph (trace (snd (startWebSocketServer fuel w port s))) \<noteq> None"
proof (induction fuel arbitrary: port s q)
  case 0
  then show ?case by simp
next
  case (Suc fuel)
  have bind: "run ph (trace (emits [NewWebSocketServer port] s)) = Some Binding"
    using Suc.prems by (auto simp: run_append)
  show ?case
  proof (cases "bind_port w port")
    case Bound
    with bind show ?thesis
      using run_append_Some [OF bind, of "[OnConnection port, ConsoleLog (ServerRunning port)]"]
      by (simp add: Let_def)
  next
    case (BindErrorEvent err)
    with bind show ?thesis
      using run_append_Some
              [OF bind, of "[OnConnection port, ConsoleLog (ServerRunning port),
                             UncaughtException err]"]
      by (simp add: Let_def)
  next
    case (BindThrew err)
    show ?thesis
    proof (cases "error_code err = Some ''EADDRINUSE''")
      case True
      have "run ph (trace (emits [ConsoleError (PortInUse port (port + 1))]
                (emits [NewWebSocketServer port] s))) = Some Binding"
        using run_append_Some [OF bind, of "[ConsoleError (PortInUse port (port + 1))]"]
        by simp
      from Suc.IH [OF this] BindThrew True show ?thesis by (simp add: Let_def)
    next
      case False
      with BindThrew show ?thesis
        using run_append_Some [OF bind, of "[ConsoleError (UnexpectedServerError err)]"]
        by (simp add: Let_def)
    qed
  qed
qed

lemma server_module_Threw:
  "bind_port w 3001 = BindThrew e \<Longrightarrow>
   server_module fuel w = (Threw e, emits [NewWebSocketServer 3001] init_state)"
  by (simp add: server_module_def)

lemma server_module_late:
  "bind_port w 3001 = BindErrorEvent e \<Longrightarrow>
   server_module fuel w =
     (Threw e,
      (emits [NewWebSocketServer 3001, ConsoleLog WaitingForPXE, Fetch STATUS_URL,
              UncaughtException e] init_state)\<lparr>fetches := Suc (fetches init_state)\<rparr>)"
  by (simp add: server_module_def Let_def)

lemma server_module_Pending:
  assumes "bind_port w 3001 = Bound"
    and "fst (deployContractWithRetry fuel w (emits [NewWebSocketServer 3001] init_state)) = Pending"
  shows "server_module fuel w =
         (Pending,
          snd (deployContractWithRetry fuel w (emits [NewWebSocketServer 3001] init_state)))"
  using assms
  by (cases "deployContractWithRetry fuel w (emits [NewWebSocketServer 3001] init_state)")
     (simp add: server_module_def)

lemma after_store_simps [simp]:
  "trace (after_store r s1) =
     trace s1 @ [AssignContractInstance (contract r), AssignWalletInstance (wallet r)]"
  "contractInstance (after_store r s1) = Some (contract r)"
  "walletInstance (after_store r s1) = Some (wallet r)"
  by (simp_all add: after_store_def)

lemma server_module_Returned:
  assumes "bind_port w 3001 = Bound"
    and "fst (deployContractWithRetry fuel w (emits [NewWebSocketServer 3001] init_state)) =
           Returned r"
  shows "server_module fuel w =
         startWebSocketServer fuel w 3002
           (after_store r
              (snd (deployContractWithRetry fuel w (emits [NewWebSocketServer 3001] init_state))))"
  using assms
  by (cases "deployContractWithRetry fuel w (emits [NewWebSocketServer 3001] init_state)")
     (simp add: server_module_def after_store_def Let_def)

lemma server_module_cases [case_names threw late pending returned]:
  obtains e where "bind_port w 3001 = BindThrew e"
      "server_module fuel w = (Threw e, emits [NewWebSocketServer 3001] init_state)"
  | e where "bind_port w 3001 = BindErrorEvent e"
      "server_module fuel w =
         (Threw e,
          (emits [NewWebSocketServer 3001, ConsoleLog WaitingForPXE, Fetch STATUS_URL,
                  UncaughtException e] init_state)\<lparr>fetches := Suc (fetches init_state)\<rparr>)"
  | "bind_port w 3001 = Bound"
      "fst (deployContractWithRetry fuel w (emits [NewWebSocketServer 3001] init_state)) = Pending"
      "server_module fuel w =
         (Pending,
          snd (deployContractWithRetry fuel w (emits [NewWebSocketServer 3001] init_state)))"
  | r where "bind_port w 3001 = Bound"
      "fst (deployContractWithRetry fuel w (emits [NewWebSocketServer 3001] init_state)) =
         Returned r"
      "server_module fuel w =
         startWebSocketServer fuel w 3002
           (after_store r
              (snd (deployContractWithRetry fuel w (emits [NewWebSocketServer 3001] init_state))))"
proof (cases "bind_port w 3001")
  case (BindThrew e)
  then show ?thesis using server_module_Threw that(1) by blast
next
  case (BindErrorEvent e)
  then show ?thesis using server_module_late that(2) by blast
next
  case Bound
  show ?thesis
  proof (cases "fst (deployContractWithRetry fuel w (emits [NewWebSocketServer 3001] init_state))")
    case (Returned r)
    with Bound show ?thesis using server_module_Returned that(4) by blast
  next
    case (Threw e)
    with retry_never_throws show ?thesis by blast
  next
    case Pending
    with Bound show ?thesis using server_module_Pending that(3) by blast
  qed
qed

lemma run_loaded: "run Loading (trace (emits [NewWebSocketServer 3001] init_state)) = Some Idle"
  by (simp add: init_state_def)

lemma run_take: "run ph tr \<noteq> None \<Longrightarrow> run ph (take n tr) \<noteq> None"
  using run_append [of ph "take n tr" "drop n tr"]
  by (cases "run ph (take n tr)") simp_all

lemma server_module_ordered: "ordered (trace (snd (server_module fuel w)))"
proof (cases fuel w rule: server_module_cases)
  case (threw e)
  then show ?thesis using run_loaded by (simp add: ordered_def)
next
  case (late e)
  then show ?thesis by (simp add: ordered_def init_state_def)
next
  case pending
  from retry_phase_pending [OF run_loaded pending(2)] pending(3) show ?thesis
    by (simp add: ordered_def)
next
  case (returned r)
  let ?s1 = "snd (deployContractWithRetry fuel w (emits [NewWebSocketServer 3001] init_state))"
  have "run Loading (trace ?s1) = Some DeployedOK"
    by (rule retry_phase_returned [OF run_loaded returned(2)])
  then have "run Loading (trace (after_store r ?s1)) = Some Stored"
    by (simp add: run_append)
  from bridge_phase [OF this] returned(3) show ?thesis
    by (simp add: ordered_def)
qed

text \<open>
  Claim C6. At every point of every run of the module (any amount of fuel, any world, any
  prefix of the trace) the events so far are in order: each run of the Deployer starts
  after a run of the Prober has completed; the two module-level variables are assigned
  after the Deployer has completed successfully; and the Bridge Server constructs its
  first server, on port 3002, only after both assignments. So the bridge never listens
  before a successful deployment. (The server of line 8, on port 3001, is constructed when
  the module loads; it has no handlers and is not the bridge.)
\<close>

theorem server_module_ordering: "ordered (take n (trace (snd (server_module fuel w))))"
  using server_module_ordered [of fuel w] by (simp add: ordered_def run_take)

text \<open>
  A complete run (one rejected status response, one failed deployment),
  and three traces the monitor rejects: a bridge before any deployment, a Deployer started
  before the Prober completed, a bridge after a failed deployment.
\<close>

theorem server_module_ordering_witness:
  "ordered (take 27 (trace (snd (server_module 3 world_one_failed_deploy))))
   \<and> ordered (take 24 (trace (snd (server_module 3 world_one_failed_deploy))))
   \<and> server_module 3 world_one_failed_deploy =
       (Returned (),
        \<lparr>trace =
           [NewWebSocketServer 3001,
            ConsoleLog WaitingForPXE,
            Fetch ''http://localhost:8080/status'',
            ConsoleLog (ResponseStatusText ''Service Unavailable''), SetTimeout 5000,
            Fetch ''http://localhost:8080/status'', ConsoleLog (ResponseStatusText ''OK''),
            ConsoleLog PXEReady,
            ConsoleLog DeployingContract, ConsoleLog GoesIntoDeployContract,
            CreatePXEClient ''http://localhost:8080'',
            ConsoleError (DeploymentFailed network_error), SetTimeout 10000,
            ConsoleLog WaitingForPXE,
            Fetch ''http://localhost:8080/status'', ConsoleLog (ResponseStatusText ''OK''),
            ConsoleLog PXEReady,
            ConsoleLog DeployingContract, ConsoleLog GoesIntoDeployContract,
            CreatePXEClient ''http://localhost:8080'',
            ConsoleLog (MainContractDeployedAt ''0x04bf''),
            ConsoleLog (ContractDeployedAt ''0x04bf''),
            AssignContractInstance (MainContract ''0x04bf''),
            AssignWalletInstance (AccountWallet 7),
            NewWebSocketServer 3002, OnConnection 3002, ConsoleLog (ServerRunning 3002)],
         fetches = 3, deploys = 2,
         contractInstance = Some (MainContract ''0x04bf''),
         walletInstance = Some (AccountWallet 7)\<rparr>)
   \<and> \<not> ordered [NewWebSocketServer 3001, NewWebSocketServer 3002]
   \<and> \<not> ordered [NewWebSocketServer 3001, ConsoleLog WaitingForPXE,
                  ConsoleLog GoesIntoDeployContract]
   \<and> \<not> ordered [NewWebSocketServer 3001, ConsoleLog WaitingForPXE, ConsoleLog PXEReady,
                  ConsoleLog GoesIntoDeployContract,
                  ConsoleError (DeploymentFailed network_error), NewWebSocketServer 3002]"
  using server_module_ordering [of 27 3 world_one_failed_deploy]
    server_module_ordering [of 24 3 world_one_failed_deploy]
  by (simp add: ordered_def server_module_def deployContractWithRetry.simps
      world_one_failed_deploy_def init_state_def ensurePXEReady_def deployContract_def
      setupSandbox_def PXE_URL_def STATUS_URL_def emits_def
      numeral_3_eq_3 Let_def)

lemma writes_Nil [simp]: "writes [] = []"
  by (simp add: writes_def)

lemma writes_Cons [simp]: "writes (e # es) = (if is_write e then e # writes es else writes es)"
  by (simp add: writes_def)

lemma writes_append [simp]: "writes (xs @ ys) = writes xs @ writes ys"
  by (simp add: writes_def)

lemma writes_failed_probe [simp]: "writes (failed_probe r) = []"
  by (cases r) simp_all

lemma writes_failed_probes [simp]: "writes (failed_probes w start n) = []"
  by (induction n arbitrary: start) (simp_all add: failed_probes_Suc_front)

lemma prober_writes: "writes (trace (snd (ensurePXEReady fuel w s))) = writes (trace s)"
  by (cases fuel w s rule: prober_cases) (simp_all add: successful_probe_def)

lemma retry_frame:
  "writes (trace (snd (deployContractWithRetry fuel w s))) = writes (trace s)
   \<and> contractInstance (snd (deployContractWithRetry fuel w s)) = contractInstance s
   \<and> walletInstance (snd (deployContractWithRetry fuel w s)) = walletInstance s"
proof (induction fuel s rule: retry_induct [where w = w])
  case (zero s)
  show ?case by simp
next
  case (pending fuel s)
  then show ?case by (simp add: retry_Suc_pending prober_writes prober_frame)
next
  case (success fuel s c a)
  then show ?case by (simp add: retry_Suc_success prober_writes prober_frame)
next
  case (failure fuel s e)
  then show ?case by (simp add: retry_Suc_failure prober_writes prober_frame)
qed

lemma bridge_frame:
  "writes (trace (snd (startWebSocketServer fuel w port s))) = writes (trace s)
   \<and> contractInstance (snd (startWebSocketServer fuel w port s)) = contractInstance s
   \<and> walletInstance (snd (startWebSocketServer fuel w port s)) = walletInstance s"
  by (induction fuel w port s rule: startWebSocketServer.induct)
     (simp_all add: Let_def split: bind_outcome.splits)

lemma slot_empty_or_written:
  "(writes (trace (snd (server_module fuel w))) = []
      \<and> contractInstance (snd (server_module fuel w)) = None
      \<and> walletInstance (snd (server_module fuel w)) = None
      \<and> fst (server_module fuel w) \<noteq> Returned ())
   \<or> (\<exists>r. fst (deployContractWithRetry fuel w (emits [NewWebSocketServer 3001] init_state)) =
             Returned r
          \<and> writes (trace (snd (server_module fuel w))) =
              [AssignContractInstance (contract r), AssignWalletInstance (wallet r)]
          \<and> contractInstance (snd (server_module fuel w)) = Some (contract r)
          \<and> walletInstance (snd (server_module fuel w)) = Some (wallet r))"
proof (cases fuel w rule: server_module_cases)
  case (threw e)
  then show ?thesis by (simp add: init_state_def)
next
  case (late e)
  then show ?thesis by (simp add: init_state_def)
next
  case pending
  then show ?thesis using retry_frame [of fuel w "emits [NewWebSocketServer 3001] init_state"]
    by (simp add: init_state_def)
next
  case (returned r)
  then show ?thesis
    using retry_frame [of fuel w "emits [NewWebSocketServer 3001] init_state"]
    by (simp add: bridge_frame init_state_def)
qed

lemma deployment_result_stored:
  assumes "bind_port w 3001 = Bound"
    and "fst (deployContractWithRetry fuel w (emits [NewWebSocketServer 3001] init_state)) =
           Returned r"
  shows "writes (trace (snd (server_module fuel w))) =
           [AssignContractInstance (contract r), AssignWalletInstance (wallet r)]
         \<and> contractInstance (snd (server_module fuel w)) = Some (contract r)
         \<and> walletInstance (snd (server_module fuel w)) = Some (wallet r)"
  using server_module_Returned [OF assms]
    retry_frame [of fuel w "emits [NewWebSocketServer 3001] init_state"]
  by (simp add: bridge_frame init_state_def)

text \<open>
  Claim C8. In every run of the module, for any amount of fuel (that is, whenever the run
  is suspended at the head of a loop or has ended), either nothing has been written to the
  two module-level variables, both are undefined and the run has not completed;
  or \<open>deployContractWithRetry\<close> has returned a result \<open>r\<close>, the writes so far are exactly
  one assignment of \<open>contract r\<close> to \<^verbatim>\<open>contractInstance\<close> followed by one assignment of
  \<open>wallet r\<close> to \<^verbatim>\<open>walletInstance\<close>, and the variables hold these values. The trace only
  grows, so at every point the writes are a prefix of these two: the slot never holds more
  than one deployment result, a completed orchestration has written it exactly once, and
  nothing writes it afterwards. Moreover, whenever the module has loaded and
  \<open>deployContractWithRetry\<close> has returned \<open>r\<close>, exactly these two writes have happened and
  the variables hold \<open>contract r\<close> and \<open>wallet r\<close>.
\<close>

theorem slot_written_once:
  "((writes (trace (snd (server_module fuel w))) = []
      \<and> contractInstance (snd (server_module fuel w)) = None
      \<and> walletInstance (snd (server_module fuel w)) = None
      \<and> fst (server_module fuel w) \<noteq> Returned ())
   \<or> (\<exists>r. fst (deployContractWithRetry fuel w (emits [NewWebSocketServer 3001] init_state)) =
             Returned r
          \<and> writes (trace (snd (server_module fuel w))) =
              [AssignContractInstance (contract r), AssignWalletInstance (wallet r)]
          \<and> contractInstance (snd (server_module fuel w)) = Some (contract r)
          \<and> walletInstance (snd (server_module fuel w)) = Some (wallet r)))
   \<and> (bind_port w 3001 = Bound
        \<and> fst (deployContractWithRetry fuel w (emits [NewWebSocketServer 3001] init_state)) =
            Returned r' \<longrightarrow>
        writes (trace (snd (server_module fuel w))) =
          [AssignContractInstance (contract r'), AssignWalletInstance (wallet r')]
        \<and> contractInstance (snd (server_module fuel w)) = Some (contract r')
        \<and> walletInstance (snd (server_module fuel w)) = Some (wallet r'))"
  using slot_empty_or_written [of fuel w] deployment_result_stored [of w fuel r']
  by blast

theorem slot_written_once_witness:
  "writes (trace (snd (server_module 3 world_one_failed_deploy))) =
     [AssignContractInstance (MainContract ''0x04bf''), AssignWalletInstance (AccountWallet 7)]
   \<and> contractInstance (snd (server_module 3 world_one_failed_deploy)) =
       Some (MainContract ''0x04bf'')
   \<and> walletInstance (snd (server_module 3 world_one_failed_deploy)) = Some (AccountWallet 7)
   \<and> fst (server_module 3 world_one_failed_deploy) = Returned ()
   \<and> writes (trace (snd (server_module 2 world_one_failed_deploy))) = []
   \<and> contractInstance (snd (server_module 2 world_one_failed_deploy)) = None
   \<and> fst (server_module 2 world_one_failed_deploy) = Pending"
  using slot_written_once [of 3 world_one_failed_deploy]
    slot_written_once [of 2 world_one_failed_deploy]
  by (simp add: server_module_def deployContractWithRetry.simps
      world_one_failed_deploy_def init_state_def ensurePXEReady_def deployContract_def
      setupSandbox_def PXE_URL_def STATUS_URL_def emits_def
      numeral_3_eq_3 numeral_2_eq_2 Let_def)

end
